theory Spec2Isabelle
  imports Complex_Main "HOL-Library.AList"
begin

section \<open>The VTKWarp notebook\<close>

text \<open>
  The notebook \<^verbatim>\<open>examples/gallery/demos/VTKWarp.ipynb\<close> samples a scalar field on a
  grid, hands it to a mesh of the visualisation library, warps the mesh and redraws it
  whenever a player widget changes its value.

  The notebook's own code is modelled statement by statement. The three libraries it calls
  are modelled as far as the notebook uses them, from their documented behaviour.
  Colour maps, the camera, sizes and the page layout do not enter any property below and
  are left out.
\<close>

subsection \<open>Errors\<close>

datatype error = ValueError | IndexError | TypeError | OverflowError | ZeroDivisionError

definition bind :: "error + 'a \<Rightarrow> ('a \<Rightarrow> error + 'b) \<Rightarrow> error + 'b" where
  \<comment> \<open>Sequencing of two statements: an exception of the first one propagates.\<close>
  "bind m f = (case m of Inl e \<Rightarrow> Inl e | Inr x \<Rightarrow> f x)"

subsection \<open>Floats\<close>

text \<open>
  A float64 is a finite number, an infinity or not-a-number. An operation on finite
  operands has its exact real result unless that overflows, and then the infinity of its
  sign: overflow is kept, rounding and underflow are not. A result overflows when rounding
  to nearest would take it beyond the largest float, that is, when it is at least half a
  unit in the last place away from it. The two zeros, which Python compares equal, are one
  value. The float32 coordinates of the visualisation library are treated in the same way.
\<close>

datatype float64 = Finite real | PosInf | NegInf | NaN

definition max_float :: real where
  \<comment> \<open>The largest finite float64, about \<open>1.797e308\<close>.\<close>
  "max_float = 2 ^ 1024 - 2 ^ 971"

definition overflows :: "real \<Rightarrow> bool" where
  \<comment> \<open>No finite float is nearest to the number.\<close>
  "overflows r = (max_float + 2 ^ 970 \<le> \<bar>r\<bar>)"

definition signed_inf :: "bool \<Rightarrow> float64" where
  "signed_inf positive = (if positive then PosInf else NegInf)"

definition to_float :: "real \<Rightarrow> float64" where
  \<comment> \<open>The float of an exact result.\<close>
  "to_float r = (if overflows r then signed_inf (0 < r) else Finite r)"

fun fl_neg :: "float64 \<Rightarrow> float64" where
  "fl_neg (Finite x) = Finite (- x)"
| "fl_neg PosInf = NegInf"
| "fl_neg NegInf = PosInf"
| "fl_neg NaN = NaN"

fun fl_add :: "float64 \<Rightarrow> float64 \<Rightarrow> float64" where
  "fl_add (Finite x) (Finite y) = to_float (x + y)"
| "fl_add NaN _ = NaN"
| "fl_add _ NaN = NaN"
| "fl_add PosInf NegInf = NaN"
| "fl_add NegInf PosInf = NaN"
| "fl_add PosInf _ = PosInf"
| "fl_add _ PosInf = PosInf"
| "fl_add NegInf _ = NegInf"
| "fl_add _ NegInf = NegInf"

definition fl_sub :: "float64 \<Rightarrow> float64 \<Rightarrow> float64" where
  "fl_sub a b = fl_add a (fl_neg b)"

fun fl_mul :: "float64 \<Rightarrow> float64 \<Rightarrow> float64" where
  "fl_mul (Finite x) (Finite y) = to_float (x * y)"
| "fl_mul NaN _ = NaN"
| "fl_mul _ NaN = NaN"
| "fl_mul (Finite x) b = (if x = 0 then NaN else signed_inf ((0 < x) = (b = PosInf)))"
| "fl_mul a (Finite y) = (if y = 0 then NaN else signed_inf ((0 < y) = (a = PosInf)))"
| "fl_mul a b = signed_inf (a = b)"

fun fl_div_int :: "float64 \<Rightarrow> int \<Rightarrow> float64" where
  \<comment> \<open>A float divided by an integer scalar that a float can hold. A zero divisor gives an
      infinity or not-a-number; the library warns and raises nothing.\<close>
  "fl_div_int (Finite x) c =
     (if c = 0 then (if x = 0 then NaN else signed_inf (0 < x)) else to_float (x / of_int c))"
| "fl_div_int PosInf c = signed_inf (0 \<le> c)"
| "fl_div_int NegInf c = signed_inf (c < 0)"
| "fl_div_int NaN c = NaN"

fun fl_pow :: "float64 \<Rightarrow> int \<Rightarrow> float64" where
  \<comment> \<open>A float to an integer power. Anything to the power 0 is 1. Zero to a negative power
      is an infinity and raises nothing; the zero is taken as the positive one.\<close>
  "fl_pow (Finite x) n =
     (if n = 0 then Finite 1 else if x = 0 \<and> n < 0 then PosInf else to_float (x powi n))"
| "fl_pow PosInf n = (if n = 0 then Finite 1 else if 0 < n then PosInf else Finite 0)"
| "fl_pow NegInf n =
     (if n = 0 then Finite 1 else if n < 0 then Finite 0 else signed_inf (even n))"
| "fl_pow NaN n = (if n = 0 then Finite 1 else NaN)"

fun fl_sin :: "float64 \<Rightarrow> float64" where
  \<comment> \<open>The sine of an infinity is not-a-number.\<close>
  "fl_sin (Finite x) = Finite (sin x)"
| "fl_sin _ = NaN"

fun fl_le :: "float64 \<Rightarrow> float64 \<Rightarrow> bool" where
  \<comment> \<open>The order of two floats neither of which is not-a-number.\<close>
  "fl_le (Finite x) (Finite y) = (x \<le> y)"
| "fl_le NegInf _ = True"
| "fl_le _ PosInf = True"
| "fl_le _ _ = False"

definition fl_min :: "float64 \<Rightarrow> float64 \<Rightarrow> float64" where
  \<comment> \<open>The smaller of two floats; not-a-number wins.\<close>
  "fl_min a b = (if a = NaN \<or> b = NaN then NaN else if fl_le a b then a else b)"

definition between :: "real \<Rightarrow> real \<Rightarrow> float64 \<Rightarrow> bool" where
  \<comment> \<open>A float lies in a closed interval: it is finite, and between the bounds.\<close>
  "between lo hi v = (case v of Finite x \<Rightarrow> lo \<le> x \<and> x \<le> hi | _ \<Rightarrow> False)"

definition int_truediv :: "int \<Rightarrow> int \<Rightarrow> error + real" where
  \<comment> \<open>Python's \<^verbatim>\<open>a / b\<close> on two integers: the quotient as a float, OverflowError when no
      float can hold it.\<close>
  "int_truediv a b =
     (if b = 0 then Inl ZeroDivisionError
      else if overflows (real_of_int a / real_of_int b) then Inl OverflowError
      else Inr (real_of_int a / real_of_int b))"

subsection \<open>Arrays\<close>

text \<open>
  A one-dimensional array is a list. A two-dimensional array is its shape
  (rows, columns) and its elements in row-major order, as the library stores them.
\<close>

record ndarray =
  shape :: "nat \<times> nat"
  data :: "float64 list"

definition item :: "ndarray \<Rightarrow> nat \<Rightarrow> nat \<Rightarrow> float64" where
  \<comment> \<open>\<^verbatim>\<open>a[i, j]\<close>, for \<open>i\<close> and \<open>j\<close> within the shape.\<close>
  "item a i j = data a ! (i * snd (shape a) + j)"

definition contiguous :: "ndarray \<Rightarrow> bool" where
  \<comment> \<open>The buffer holds exactly rows times columns elements.\<close>
  "contiguous a = (length (data a) = fst (shape a) * snd (shape a))"

definition linspace :: "real \<Rightarrow> real \<Rightarrow> nat \<Rightarrow> float64 list" where
  \<comment> \<open>\<^verbatim>\<open>np.linspace(start, stop, num)\<close> for two finite bounds: \<open>num\<close> evenly spaced
      samples, the last one set to \<open>stop\<close>. With \<open>num = 1\<close> the only sample is \<open>start\<close>.\<close>
  "linspace start stop num =
     (let d = num - 1;
          delta = fl_sub (Finite stop) (Finite start);
          step = (if 0 < d then fl_div_int delta (int d) else delta);
          y = map (\<lambda>i. fl_add (fl_mul (Finite (real i)) step) (Finite start)) [0..<num]
      in if 1 < num then y[num - 1 := Finite stop] else y)"

definition meshgrid :: "float64 list \<Rightarrow> float64 list \<Rightarrow> ndarray \<times> ndarray" where
  \<comment> \<open>\<^verbatim>\<open>np.meshgrid(xv, yv)\<close> with the default \<^verbatim>\<open>indexing='xy'\<close>: both results have
      \<open>length yv\<close> rows and \<open>length xv\<close> columns; the first repeats \<open>xv\<close> in every row,
      the second repeats \<open>yv\<close> in every column.\<close>
  "meshgrid xv yv =
     (let nx = length xv; ny = length yv
      in (\<lparr>shape = (ny, nx), data = map (\<lambda>k. xv ! (k mod nx)) [0..<ny * nx]\<rparr>,
          \<lparr>shape = (ny, nx), data = map (\<lambda>k. yv ! (k div nx)) [0..<ny * nx]\<rparr>))"

definition true_divide :: "ndarray \<Rightarrow> int \<Rightarrow> ndarray" where
  \<comment> \<open>\<^verbatim>\<open>a / c\<close> for an integer scalar \<open>c\<close>.\<close>
  "true_divide a c = a\<lparr>data := map (\<lambda>v. fl_div_int v c) (data a)\<rparr>"

definition np_power :: "ndarray \<Rightarrow> int \<Rightarrow> ndarray" where
  \<comment> \<open>\<^verbatim>\<open>a ** c\<close> for a float array and an integer scalar \<open>c\<close>.\<close>
  "np_power a c = a\<lparr>data := map (\<lambda>v. fl_pow v c) (data a)\<rparr>"

definition np_add :: "ndarray \<Rightarrow> real \<Rightarrow> ndarray" where
  \<comment> \<open>\<^verbatim>\<open>a + t\<close> for a finite scalar \<open>t\<close>.\<close>
  "np_add a t = a\<lparr>data := map (\<lambda>v. fl_add v (Finite t)) (data a)\<rparr>"

definition broadcast_dim :: "nat \<Rightarrow> nat \<Rightarrow> nat option" where
  \<comment> \<open>Two extents are compatible when they are equal or one of them is 1.\<close>
  "broadcast_dim m n =
     (if m = n then Some m else if m = 1 then Some n else if n = 1 then Some m else None)"

definition broadcast_index :: "nat \<times> nat \<Rightarrow> nat \<Rightarrow> nat \<Rightarrow> nat" where
  \<comment> \<open>Where position \<open>(i, j)\<close> of the result reads in the buffer of an operand of the given
      shape: an axis of extent 1 is repeated.\<close>
  "broadcast_index sh i j =
     (if fst sh = 1 then 0 else i) * snd sh + (if snd sh = 1 then 0 else j)"

definition np_multiply :: "ndarray \<Rightarrow> ndarray \<Rightarrow> error + ndarray" where
  \<comment> \<open>\<^verbatim>\<open>a * b\<close>, element by element with broadcasting; ValueError when the shapes are
      not compatible.\<close>
  "np_multiply a b =
     (case broadcast_dim (fst (shape a)) (fst (shape b)) of
        None \<Rightarrow> Inl ValueError
      | Some r \<Rightarrow>
          (case broadcast_dim (snd (shape a)) (snd (shape b)) of
             None \<Rightarrow> Inl ValueError
           | Some c \<Rightarrow>
               Inr \<lparr>shape = (r, c),
                    data = map (\<lambda>k. fl_mul
                                     (data a ! broadcast_index (shape a) (k div c) (k mod c))
                                     (data b ! broadcast_index (shape b) (k div c) (k mod c)))
                             [0..<r * c]\<rparr>))"

definition np_sin :: "ndarray \<Rightarrow> ndarray" where
  "np_sin a = a\<lparr>data := map fl_sin (data a)\<rparr>"

definition flatten :: "ndarray \<Rightarrow> float64 list" where
  \<comment> \<open>\<^verbatim>\<open>a.flatten(order='F')\<close>: column-major, the row index runs fastest.\<close>
  "flatten a =
     (let r = fst (shape a); c = snd (shape a)
      in map (\<lambda>k. data a ! ((k mod r) * c + k div r)) [0..<r * c])"

definition getitem :: "float64 list \<Rightarrow> nat \<Rightarrow> error + float64" where
  \<comment> \<open>\<^verbatim>\<open>v[i]\<close> for a non-negative index.\<close>
  "getitem v i = (if i < length v then Inr (v ! i) else Inl IndexError)"

definition np_min :: "float64 list \<Rightarrow> error + float64" where
  \<comment> \<open>\<^verbatim>\<open>v.min()\<close>: ValueError on an empty array.\<close>
  "np_min v = (case v of [] \<Rightarrow> Inl ValueError | a # r \<Rightarrow> Inr (fold fl_min r a))"

subsection \<open>The grid and the field (second cell, lines 28 to 35)\<close>

text \<open>The module-level names that \<^verbatim>\<open>time_function\<close> reads when it is called.\<close>

record globals =
  alpha :: int
  xvals :: "float64 list"
  yvals :: "float64 list"
  xs :: ndarray
  ys :: ndarray

definition grid :: globals where
  \<comment> \<open>Lines 28 to 31.\<close>
  "grid =
     (let xv = linspace (- 4) 4 101;
          yv = linspace (- 4) 4 101;
          (gx, gy) = meshgrid xv yv
      in \<lparr>alpha = 2, xvals = xv, yvals = yv, xs = gx, ys = gy\<rparr>)"

definition time_function :: "'a globals_scheme \<Rightarrow> real \<Rightarrow> error + ndarray" where
  \<comment> \<open>\<^verbatim>\<open>np.sin(((ys/alpha)**alpha+time)*xs)\<close>, for a finite \<open>time\<close>.\<close>
  "time_function g time =
     bind (np_multiply (np_add (np_power (true_divide (ys g) (alpha g)) (alpha g)) time) (xs g))
       (\<lambda>m. Inr (np_sin m))"

definition grid_ok :: "'a globals_scheme \<Rightarrow> bool" where
  \<comment> \<open>What the field computation needs of the names it reads.\<close>
  "grid_ok g = (shape (xs g) = shape (ys g) \<and> contiguous (xs g) \<and> contiguous (ys g))"

subsection \<open>Meshes of the visualisation library\<close>

type_synonym point = "float64 \<times> float64 \<times> float64"

text \<open>
  A mesh is its points and its named point arrays, in the order in which they were added.
  Its active scalars are its first point array.
\<close>

record mesh =
  points :: "point list"
  point_arrays :: "(string \<times> float64 list) list"

definition UniformGrid :: "nat \<times> nat \<times> nat \<Rightarrow> point \<Rightarrow> point \<Rightarrow> mesh" where
  \<comment> \<open>\<^verbatim>\<open>pv.UniformGrid(dims, spacing, origin)\<close>: the points of a regular lattice, the first
      axis running fastest, and no point array.\<close>
  "UniformGrid dims spacing origin =
     (case dims of (nx, ny, nz) \<Rightarrow>
      case spacing of (sx, sy, sz) \<Rightarrow>
      case origin of (ox, oy, oz) \<Rightarrow>
        \<lparr>points = map (\<lambda>k. (fl_add ox (fl_mul (Finite (real (k mod nx))) sx),
                            fl_add oy (fl_mul (Finite (real (k div nx mod ny))) sy),
                            fl_add oz (fl_mul (Finite (real (k div (nx * ny)))) sz)))
                    [0..<nx * ny * nz],
         point_arrays = []\<rparr>)"

definition point_arrays_append :: "float64 list \<Rightarrow> string \<Rightarrow> mesh \<Rightarrow> error + mesh" where
  \<comment> \<open>\<^verbatim>\<open>m.point_arrays.append(narray, name)\<close>: ValueError unless there is one value per
      point; an array of the same name is replaced where it stands.\<close>
  "point_arrays_append narray name m =
     (if length narray \<noteq> length (points m) then Inl ValueError
      else Inr (m\<lparr>point_arrays := AList.update name narray (point_arrays m)\<rparr>))"

definition active_scalars :: "mesh \<Rightarrow> float64 list option" where
  \<comment> \<open>The array a filter works on when none is named: the first point array.\<close>
  "active_scalars m = (case point_arrays m of [] \<Rightarrow> None | (name, s) # _ \<Rightarrow> Some s)"

definition warp_point :: "real \<Rightarrow> point \<Rightarrow> float64 \<Rightarrow> point" where
  \<comment> \<open>A point moved along the normal \<open>(0, 0, 1)\<close> by \<open>factor\<close> times its scalar \<open>s\<close>:
      every coordinate \<open>c\<close> becomes \<open>c + factor * s * n\<close> for its component \<open>n\<close> of the
      normal.\<close>
  "warp_point factor p s =
     (case p of (x, y, z) \<Rightarrow>
        let d = fl_mul (Finite factor) s
        in (fl_add x (fl_mul d (Finite 0)), fl_add y (fl_mul d (Finite 0)),
            fl_add z (fl_mul d (Finite 1))))"

definition warp_by_scalar :: "real \<Rightarrow> mesh \<Rightarrow> error + mesh" where
  \<comment> \<open>\<^verbatim>\<open>m.warp_by_scalar(factor=factor)\<close>, whose default factor is 1: a new mesh whose
      points are those of \<open>m\<close>, each warped by its active scalar; the point arrays are
      passed on. It raises when the mesh has no point array to warp by.\<close>
  "warp_by_scalar factor m =
     (case active_scalars m of
        None \<Rightarrow> Inl TypeError
      | Some s \<Rightarrow>
          Inr (m\<lparr>points := map (\<lambda>(p, v). warp_point factor p v) (zip (points m) s)\<rparr>))"

subsection \<open>Widgets, the render panel and the state of the notebook\<close>

record player =
  frame_value :: int
  frame_start :: int
  frame_end :: int
  interval :: nat
  loop_policy :: string

text \<open>The calls that act on a mesh, on a plotter or on the render panel, as they happen.\<close>

datatype mesh_name = MeshRef | MeshWarped

datatype plotter_name = PlRef | Pl

datatype call =
    Append mesh_name string "float64 list"
  | WarpByScalar mesh_name real
  | SetPoints mesh_name "point list"
  | AddMesh plotter_name mesh_name
  | Panel plotter_name
  | Synchronize

text \<open>
  The state is the module-level names: those of the grid, the two meshes, the player
  \<^verbatim>\<open>frame\<close>, and the render panel \<^verbatim>\<open>vtkpan\<close>, which is the copy of the scene of
  plotter \<^verbatim>\<open>pl\<close> (the warped mesh) that the front end shows.
\<close>

record state = globals +
  mesh_ref :: mesh
  mesh_warped :: mesh
  vtkpan :: mesh
  frame :: player
  calls :: "call list"

definition startup :: "error + state" where
  \<comment> \<open>Lines 28 to 74, from top to bottom.\<close>
  "startup =
     bind (getitem (xvals grid) 1) (\<lambda>x1.
     bind (getitem (xvals grid) 0) (\<lambda>x0.
     bind (getitem (yvals grid) 1) (\<lambda>y1.
     bind (getitem (yvals grid) 0) (\<lambda>y0.
     bind (np_min (xvals grid)) (\<lambda>xmin.
     bind (np_min (yvals grid)) (\<lambda>ymin.
     let m0 = UniformGrid (length (xvals grid), length (yvals grid), 1)
                (fl_sub x1 x0, fl_sub y1 y0, Finite 1) (xmin, ymin, Finite 0)
     in
     bind (time_function grid 0) (\<lambda>f0.
     let data0 = flatten f0 in
     bind (point_arrays_append data0 ''scalars'' m0) (\<lambda>m1.
     let c1 = [Append MeshRef ''scalars'' data0];
         c2 = c1 @ [AddMesh PlRef MeshRef];
         c3 = c2 @ [Panel PlRef]
     in
     bind (warp_by_scalar 1 m1) (\<lambda>w.
     let c4 = c3 @ [WarpByScalar MeshRef 1];
         c5 = c4 @ [AddMesh Pl MeshWarped];
         c6 = c5 @ [Panel Pl]
     in
     Inr \<lparr>alpha = alpha grid, xvals = xvals grid, yvals = yvals grid,
          xs = xs grid, ys = ys grid,
          mesh_ref = m1, mesh_warped = w, vtkpan = w,
          frame = \<lparr>frame_value = 0, frame_start = 0, frame_end = 50,
                   interval = 100, loop_policy = ''reflect''\<rparr>,
          calls = c6\<rparr>)))))))))"

definition synchronize :: "state \<Rightarrow> state" where
  \<comment> \<open>\<^verbatim>\<open>vtkpan.synchronize()\<close>: the front end receives the scene as it is now.\<close>
  "synchronize st = st\<lparr>vtkpan := mesh_warped st, calls := calls st @ [Synchronize]\<rparr>"

definition update_3d_warp :: "int \<Rightarrow> state \<Rightarrow> error + state" where
  \<comment> \<open>Lines 77 to 84. An exception ends the callback; the model does not keep the state
      it leaves behind.\<close>
  "update_3d_warp fr st =
     bind (int_truediv fr 5) (\<lambda>time.
     bind (time_function st time) (\<lambda>f.
     let data = flatten f in
     bind (point_arrays_append data ''scalars'' (mesh_ref st)) (\<lambda>mr.
     let st1 = st\<lparr>mesh_ref := mr, calls := calls st @ [Append MeshRef ''scalars'' data]\<rparr> in
     bind (point_arrays_append data ''scalars'' (mesh_warped st1)) (\<lambda>mw.
     let st2 = st1\<lparr>mesh_warped := mw,
                   calls := calls st1 @ [Append MeshWarped ''scalars'' data]\<rparr>
     in
     bind (warp_by_scalar 0.5 (mesh_ref st2)) (\<lambda>w.
     let st3 = st2\<lparr>calls := calls st2 @ [WarpByScalar MeshRef 0.5]\<rparr>;
         st4 = st3\<lparr>mesh_warped := (mesh_warped st3)\<lparr>points := points w\<rparr>,
                   calls := calls st3 @ [SetPoints MeshWarped (points w)]\<rparr>
     in Inr (synchronize st4))))))"

definition column :: "state \<Rightarrow> error + state" where
  \<comment> \<open>Line 86: the column takes the callback as one of its panes, and that calls it once,
      with the value the player has.\<close>
  "column st = update_3d_warp (frame_value (frame st)) st"

definition notebook :: "error + state" where
  \<comment> \<open>The whole notebook, lines 28 to 86.\<close>
  "notebook = bind startup column"

definition set_value :: "int \<Rightarrow> state \<Rightarrow> error + state" where
  \<comment> \<open>\<^verbatim>\<open>frame.value = v\<close>. Line 76 binds the callback to the player's value: a change of
      the value calls it with the new value, an assignment of the same value does not.\<close>
  "set_value v st =
     (if v = frame_value (frame st) then Inr st
      else update_3d_warp v (st\<lparr>frame := (frame st)\<lparr>frame_value := v\<rparr>\<rparr>))"

datatype event = Display | SetValue int

definition step :: "event \<Rightarrow> state \<Rightarrow> error + state" where
  \<comment> \<open>What happens once lines 28 to 74 have run: line 86 is run and builds the column
      for display, or the player takes a value.\<close>
  "step e st = (case e of Display \<Rightarrow> column st | SetValue v \<Rightarrow> set_value v st)"

fun play :: "event list \<Rightarrow> state \<Rightarrow> error + state" where
  \<comment> \<open>The given events, one after another. The notebook as written is the startup
      followed by \<open>Display\<close> and then by the values the player takes.\<close>
  "play [] st = Inr st"
| "play (e # es) st = bind (step e st) (play es)"

definition frame_ok :: "int \<Rightarrow> bool" where
  \<comment> \<open>The frames whose time \<^verbatim>\<open>frame/5\<close> a float can hold: up to about \<open>9e308\<close> either
      way.\<close>
  "frame_ok fr = (\<not> overflows (real_of_int fr / 5))"

definition time_ok :: "real \<Rightarrow> bool" where
  \<comment> \<open>The times at which no product \<^verbatim>\<open>((ys/alpha)**alpha+time)*xs\<close> over the grid
      overflows: up to about \<open>4.49e307\<close> either way.\<close>
  "time_ok t = (4 * (\<bar>t\<bar> + 4) \<le> max_float)"

definition event_ok :: "event \<Rightarrow> bool" where
  \<comment> \<open>The events whose value, if they have one, is a frame whose time a float can hold.\<close>
  "event_ok e = (case e of Display \<Rightarrow> True | SetValue v \<Rightarrow> frame_ok v)"

definition mesh_ok :: "state \<Rightarrow> bool" where
  \<comment> \<open>Both meshes have one point for every element of the grid, and the active scalars of
      the reference mesh, if it has any, are the array \<^verbatim>\<open>'scalars'\<close>.\<close>
  "mesh_ok st =
     (length (points (mesh_ref st)) = length (data (xs st)) \<and>
      length (points (mesh_warped st)) = length (data (xs st)) \<and>
      (case point_arrays (mesh_ref st) of [] \<Rightarrow> True | (name, _) # _ \<Rightarrow> name = ''scalars''))"

section \<open>Facts\<close>

subsection \<open>Facts about floats\<close>

lemma bind_Inr [simp]: "bind (Inr x) f = f x"
  by (simp add: bind_def)

lemma bind_Inl [simp]: "bind (Inl e) f = Inl e"
  by (simp add: bind_def)

lemma max_float_ge: "10 ^ 6 \<le> max_float"
  by (simp add: max_float_def)

lemma max_float_pos [simp]: "0 < max_float"
  using max_float_ge by simp

lemma not_overflows:
  assumes "\<bar>r\<bar> \<le> max_float"
  shows "\<not> overflows r"
proof -
  have "(0::real) < 2 ^ 970" by simp
  then show ?thesis using assms unfolding overflows_def by linarith
qed

lemma to_float_Finite:
  assumes "\<bar>r\<bar> \<le> max_float"
  shows "to_float r = Finite r"
  using not_overflows [OF assms] by (simp add: to_float_def)

lemma to_float_small:
  assumes "\<bar>r\<bar> \<le> 10 ^ 6"
  shows "to_float r = Finite r"
  using assms max_float_ge by (intro to_float_Finite) linarith

lemma to_float_PosInf:
  assumes "max_float + 2 ^ 970 \<le> r"
  shows "to_float r = PosInf"
proof -
  have "0 < r" using assms max_float_pos by (smt (verit) zero_less_power)
  then show ?thesis using assms by (simp add: to_float_def overflows_def signed_inf_def)
qed

lemma between_Finite [simp]: "between lo hi (Finite x) \<longleftrightarrow> lo \<le> x \<and> x \<le> hi"
  by (simp add: between_def)

lemma between_NaN [simp]: "\<not> between lo hi NaN"
  by (simp add: between_def)

lemma int_truediv_5: "frame_ok fr \<Longrightarrow> int_truediv fr 5 = Inr (real_of_int fr / 5)"
  by (simp add: int_truediv_def frame_ok_def)

lemma int_truediv_5_overflow: "\<not> frame_ok fr \<Longrightarrow> int_truediv fr 5 = Inl OverflowError"
  by (simp add: int_truediv_def frame_ok_def)

subsection \<open>Facts about the arrays\<close>

lemma length_linspace [simp]: "length (linspace a b n) = n"
  by (simp add: linspace_def Let_def)

lemma linspace_grid:
  "linspace (- 4) 4 101 =
     (map (\<lambda>i. fl_add (fl_mul (Finite (real i)) (Finite (2 / 25))) (Finite (- 4))) [0..<101])
       [100 := Finite 4]"
proof -
  have d: "fl_sub (Finite 4) (Finite (- 4)) = Finite 8"
    by (simp add: fl_sub_def to_float_small)
  have s: "fl_div_int (Finite 8) (int (101 - 1)) = Finite (2 / 25)"
    by (simp add: to_float_small)
  show ?thesis
    unfolding linspace_def Let_def d by (simp only: s) simp
qed

lemma sample:
  assumes "i < 101"
  shows "fl_add (fl_mul (Finite (real i)) (Finite (2 / 25))) (Finite (- 4))
           = Finite (- 4 + real i * (2 / 25))"
proof -
  have i: "real i \<le> 100" using assms by simp
  have 1: "to_float (real i * (2 / 25)) = Finite (real i * (2 / 25))"
    using i by (intro to_float_small) simp
  have 2: "to_float (real i * (2 / 25) + - 4) = Finite (real i * (2 / 25) + - 4)"
    using i by (intro to_float_small) (simp add: abs_le_iff)
  show ?thesis by (simp only: fl_mul.simps fl_add.simps 1 2) simp
qed

lemma coordinate:
  assumes "i < 101"
  shows "linspace (- 4) 4 101 ! i = Finite (- 4 + real i * (2 / 25))"
proof (cases "i = 100")
  case True
  then show ?thesis unfolding linspace_grid by simp
next
  case False
  then have "linspace (- 4) 4 101 ! i
               = fl_add (fl_mul (Finite (real i)) (Finite (2 / 25))) (Finite (- 4))"
    unfolding linspace_grid using assms by (simp del: fl_mul.simps fl_add.simps)
  then show ?thesis by (simp only: sample [OF assms])
qed

lemma fold_fl_min_least:
  assumes "\<And>v. v \<in> set vs \<Longrightarrow> \<exists>r. v = Finite r \<and> a \<le> r"
  shows "fold fl_min vs (Finite a) = Finite a"
  using assms
proof (induction vs)
  case Nil
  then show ?case by simp
next
  case (Cons v vs)
  then obtain r where r: "v = Finite r" "a \<le> r" by (meson list.set_intros(1))
  have "fl_min v (Finite a) = Finite a" using r by (auto simp add: fl_min_def)
  then show ?case using Cons by simp
qed

lemma np_min_xvals: "np_min (linspace (- 4) 4 101) = Inr (Finite (- 4))"
proof -
  let ?v = "linspace (- 4) 4 101"
  have ne: "?v \<noteq> []" by (metis length_linspace list.size(3) zero_neq_numeral)
  then obtain a r where v: "?v = a # r" by (cases ?v) simp_all
  have "a = ?v ! 0" by (simp add: v)
  then have a: "a = Finite (- 4)" using coordinate [of 0] by simp
  have "\<exists>x. w = Finite x \<and> - 4 \<le> x" if "w \<in> set r" for w
  proof -
    from that have "w \<in> set ?v" by (simp add: v)
    then obtain i where "i < 101" "w = ?v ! i"
      by (metis in_set_conv_nth length_linspace)
    then have "w = Finite (- 4 + real i * (2 / 25))" by (simp add: coordinate)
    then show ?thesis by simp
  qed
  then have "fold fl_min r (Finite (- 4)) = Finite (- 4)" by (rule fold_fl_min_least)
  then show ?thesis by (simp add: np_min_def v a)
qed

lemma getitem_xvals:
  "getitem (linspace (- 4) 4 101) 0 = Inr (Finite (- 4))"
  "getitem (linspace (- 4) 4 101) 1 = Inr (Finite (- 4 + 2 / 25))"
  using coordinate [of 0] coordinate [of 1] by (simp_all add: getitem_def)

lemma broadcast_dim_same [simp]: "broadcast_dim n n = Some n"
  by (simp add: broadcast_dim_def)

lemma broadcast_index_same:
  assumes "k < r * c"
  shows "broadcast_index (r, c) (k div c) (k mod c) = k"
proof (cases "r = 1")
  case True
  with assms have "k < c" by simp
  then show ?thesis using True by (simp add: broadcast_index_def)
next
  case False
  then show ?thesis by (simp add: broadcast_index_def)
qed

lemma np_multiply_same:
  assumes "shape a = shape b" "contiguous a"
  shows "np_multiply a b =
           Inr \<lparr>shape = shape a,
                data = map (\<lambda>k. fl_mul (data a ! k) (data b ! k)) [0..<length (data a)]\<rparr>"
proof -
  obtain r c where sa: "shape a = (r, c)" by (cases "shape a")
  have sb: "shape b = (r, c)" using assms(1) sa by simp
  have len: "length (data a) = r * c" using assms(2) sa by (simp add: contiguous_def)
  have eq: "map (\<lambda>k. fl_mul (data a ! broadcast_index (r, c) (k div c) (k mod c))
                     (data b ! broadcast_index (r, c) (k div c) (k mod c))) [0..<r * c]
            = map (\<lambda>k. fl_mul (data a ! k) (data b ! k)) [0..<r * c]"
    by (rule map_cong) (simp_all add: broadcast_index_same)
  show ?thesis unfolding np_multiply_def sa sb len using eq by simp
qed

lemma time_function_grid_ok:
  assumes "grid_ok g"
  shows "time_function g t =
           Inr \<lparr>shape = shape (xs g),
                data = map (\<lambda>k. fl_sin (fl_mul
                                   (fl_add (fl_pow (fl_div_int (data (ys g) ! k) (alpha g)) (alpha g))
                                      (Finite t))
                                   (data (xs g) ! k)))
                         [0..<length (data (xs g))]\<rparr>"
proof -
  let ?n = "length (data (xs g))"
  let ?h = "\<lambda>v. fl_add (fl_pow (fl_div_int v (alpha g)) (alpha g)) (Finite t)"
  let ?s = "(ys g)\<lparr>data := map ?h (data (ys g))\<rparr>"
  have len: "length (data (ys g)) = ?n"
    using assms by (simp add: grid_ok_def contiguous_def)
  have sh: "shape ?s = shape (xs g)" using assms by (simp add: grid_ok_def)
  have ct: "contiguous ?s" using assms by (simp add: grid_ok_def contiguous_def)
  have m: "np_multiply ?s (xs g) =
             Inr \<lparr>shape = shape (xs g),
                  data = map (\<lambda>k. fl_mul (data ?s ! k) (data (xs g) ! k)) [0..<?n]\<rparr>"
    using np_multiply_same [OF sh ct] sh len by simp
  have e: "map (\<lambda>k. fl_sin (fl_mul (data ?s ! k) (data (xs g) ! k))) [0..<?n]
        = map (\<lambda>k. fl_sin (fl_mul (?h (data (ys g) ! k)) (data (xs g) ! k))) [0..<?n]"
    by (rule map_cong) (simp_all add: len)
  have "time_function g t = bind (np_multiply ?s (xs g)) (\<lambda>m. Inr (np_sin m))"
    by (simp add: time_function_def true_divide_def np_power_def np_add_def comp_def)
  also have "\<dots> = Inr \<lparr>shape = shape (xs g),
        data = map (\<lambda>k. fl_sin (fl_mul (data ?s ! k) (data (xs g) ! k))) [0..<?n]\<rparr>"
    unfolding m bind_Inr np_sin_def by (simp add: comp_def)
  finally show ?thesis unfolding e .
qed

subsection \<open>Facts about the grid and the field\<close>

lemma grid_fields:
  "alpha grid = 2" "xvals grid = linspace (- 4) 4 101" "yvals grid = linspace (- 4) 4 101"
  "shape (xs grid) = (101, 101)" "shape (ys grid) = (101, 101)"
  "data (xs grid) = map (\<lambda>k. linspace (- 4) 4 101 ! (k mod 101)) [0..<10201]"
  "data (ys grid) = map (\<lambda>k. linspace (- 4) 4 101 ! (k div 101)) [0..<10201]"
  by (simp_all add: grid_def meshgrid_def Let_def)

lemma grid_ok_grid: "grid_ok grid"
  by (simp add: grid_ok_def contiguous_def grid_fields)

lemma index_in_grid:
  assumes "i < (101::nat)" "j < (101::nat)"
  shows "i * 101 + j < 10201" "(i * 101 + j) mod 101 = j" "(i * 101 + j) div 101 = i"
  using assms by simp_all

lemma item_xs_grid:
  assumes "i < 101" "j < 101"
  shows "item (xs grid) i j = xvals grid ! j" "item (xs grid) i j = Finite (- 4 + real j * (2 / 25))"
  using index_in_grid [OF assms] coordinate [OF assms(2)] by (simp_all add: item_def grid_fields)

lemma item_ys_grid:
  assumes "i < 101" "j < 101"
  shows "item (ys grid) i j = yvals grid ! i" "item (ys grid) i j = Finite (- 4 + real i * (2 / 25))"
  using index_in_grid [OF assms] coordinate [OF assms(1)] by (simp_all add: item_def grid_fields)

lemma time_function_grid:
  "time_function grid t =
     Inr \<lparr>shape = (101, 101),
          data = map (\<lambda>k. fl_sin (fl_mul
                             (fl_add (fl_pow (fl_div_int (data (ys grid) ! k) 2) 2) (Finite t))
                             (data (xs grid) ! k)))
                   [0..<10201]\<rparr>"
  unfolding time_function_grid_ok [OF grid_ok_grid, of t] grid_fields(1,4)
  by (simp add: grid_fields(6))

lemma item_time_function_grid:
  assumes "i < 101" "j < 101" "time_function grid t = Inr f"
  shows "item f i j =
           fl_sin (fl_mul (fl_add (fl_pow (fl_div_int (item (ys grid) i j) 2) 2) (Finite t))
                     (item (xs grid) i j))"
proof -
  have f: "f = \<lparr>shape = (101, 101),
          data = map (\<lambda>k. fl_sin (fl_mul
                             (fl_add (fl_pow (fl_div_int (data (ys grid) ! k) 2) 2) (Finite t))
                             (data (xs grid) ! k)))
                   [0..<10201]\<rparr>"
    using assms(3) unfolding time_function_grid by simp
  show ?thesis
    unfolding f item_def grid_fields(4,5) using index_in_grid(1) [OF assms(1,2)]
    by (simp del: fl_sin.simps fl_mul.simps fl_add.simps fl_pow.simps fl_div_int.simps)
qed

lemma time_ok_max: "time_ok t \<Longrightarrow> \<bar>t\<bar> + 4 \<le> max_float"
  by (simp add: time_ok_def)

lemma field_real:
  assumes "\<bar>x\<bar> \<le> 4" "\<bar>y\<bar> \<le> 4" "time_ok t"
  shows "fl_sin (fl_mul (fl_add (fl_pow (fl_div_int (Finite y) 2) 2) (Finite t)) (Finite x))
           = Finite (sin (((y / 2)\<^sup>2 + t) * x))"
proof -
  have 1: "fl_div_int (Finite y) 2 = Finite (y / 2)"
    using assms(2) by (simp add: to_float_small)
  have sq: "(y / 2)\<^sup>2 \<le> 4"
  proof -
    have "\<bar>y / 2\<bar> \<le> 2" using assms(2) by simp
    then have "(y / 2)\<^sup>2 \<le> 2\<^sup>2" by (simp only: abs_le_square_iff [symmetric])
    then show ?thesis by simp
  qed
  have 2: "fl_pow (Finite (y / 2)) 2 = Finite ((y / 2)\<^sup>2)"
  proof -
    have "to_float ((y / 2)\<^sup>2) = Finite ((y / 2)\<^sup>2)"
      using sq by (intro to_float_small) simp
    then show ?thesis by simp
  qed
  have nn: "0 \<le> (y / 2)\<^sup>2" by simp
  have b: "\<bar>(y / 2)\<^sup>2 + t\<bar> \<le> \<bar>t\<bar> + 4" using sq nn by linarith
  have 3: "fl_add (Finite ((y / 2)\<^sup>2)) (Finite t) = Finite ((y / 2)\<^sup>2 + t)"
    using b time_ok_max [OF assms(3)] by (simp add: to_float_Finite)
  have "\<bar>((y / 2)\<^sup>2 + t) * x\<bar> \<le> (\<bar>t\<bar> + 4) * 4"
    unfolding abs_mult using b assms(1) by (intro mult_mono) simp_all
  then have "\<bar>((y / 2)\<^sup>2 + t) * x\<bar> \<le> max_float"
    using assms(3) by (simp add: time_ok_def)
  then have 4: "fl_mul (Finite ((y / 2)\<^sup>2 + t)) (Finite x) = Finite (((y / 2)\<^sup>2 + t) * x)"
    by (simp add: to_float_Finite)
  show ?thesis by (simp only: 1 2 3 4 fl_sin.simps)
qed

lemma coordinate_bound:
  assumes "i < 101"
  shows "\<bar>- 4 + real i * (2 / 25)\<bar> \<le> 4"
proof -
  have "real i \<le> 100" using assms by simp
  then show ?thesis by (simp add: abs_le_iff)
qed

subsection \<open>Facts about flattening and the lattice of points\<close>

lemma length_flatten: "length (flatten a) = fst (shape a) * snd (shape a)"
  by (simp add: flatten_def Let_def)

lemma nth_flatten:
  assumes "k < fst (shape a) * snd (shape a)"
  shows "flatten a ! k = item a (k mod fst (shape a)) (k div fst (shape a))"
  using assms by (simp add: flatten_def Let_def item_def)

lemma length_points_UniformGrid [simp]:
  "length (points (UniformGrid (nx, ny, nz) sp orig)) = nx * ny * nz"
  by (simp add: UniformGrid_def split: prod.splits)

lemma point_arrays_UniformGrid [simp]:
  "point_arrays (UniformGrid dims sp orig) = []"
  by (simp add: UniformGrid_def split: prod.splits)

lemma nth_points_UniformGrid:
  assumes "k < nx * ny * nz"
  shows "points (UniformGrid (nx, ny, nz) (sx, sy, sz) (ox, oy, oz)) ! k =
           (fl_add ox (fl_mul (Finite (real (k mod nx))) sx),
            fl_add oy (fl_mul (Finite (real (k div nx mod ny))) sy),
            fl_add oz (fl_mul (Finite (real (k div (nx * ny)))) sz))"
  using assms by (simp add: UniformGrid_def)

lemma lattice_coordinate:
  assumes "i < 101"
  shows "fl_add (Finite (- 4)) (fl_mul (Finite (real i)) (Finite (2 / 25)))
           = Finite (- 4 + real i * (2 / 25))"
proof -
  have i: "real i \<le> 100" using assms by simp
  have 1: "to_float (real i * (2 / 25)) = Finite (real i * (2 / 25))"
    using i by (intro to_float_small) simp
  have 2: "to_float (- 4 + real i * (2 / 25)) = Finite (- 4 + real i * (2 / 25))"
    using i by (intro to_float_small) (simp add: abs_le_iff)
  show ?thesis by (simp only: fl_mul.simps fl_add.simps 1 2)
qed

lemma nth_lattice:
  assumes "k < 10201"
  shows "points (UniformGrid (101, 101, 1) (Finite (2 / 25), Finite (2 / 25), Finite 1)
                   (Finite (- 4), Finite (- 4), Finite 0)) ! k =
           (Finite (- 4 + real (k mod 101) * (2 / 25)),
            Finite (- 4 + real (k div 101) * (2 / 25)), Finite 0)"
proof -
  have k: "k < 101 * 101 * 1" using assms by simp
  have d: "k div 101 mod 101 = k div 101" "k div (101 * 101) = 0" using assms by simp_all
  have i: "k mod 101 < 101" by simp
  have j: "k div 101 < 101" using assms by simp
  have z: "fl_add (Finite 0) (fl_mul (Finite (real (0::nat))) (Finite 1)) = Finite 0"
    by (simp add: to_float_small)
  show ?thesis
    unfolding nth_points_UniformGrid [OF k] d lattice_coordinate [OF i] lattice_coordinate [OF j] z
    by (rule refl)
qed

lemma warp_point_finite:
  assumes "\<bar>x\<bar> \<le> 4" "\<bar>y\<bar> \<le> 4" "\<bar>s\<bar> \<le> 1" "\<bar>c\<bar> \<le> 1"
  shows "warp_point c (Finite x, Finite y, Finite 0) (Finite s)
           = (Finite x, Finite y, Finite (c * s))"
proof -
  have "\<bar>c * s\<bar> \<le> 1 * 1" unfolding abs_mult using assms(3,4) by (intro mult_mono) simp_all
  then have cs: "\<bar>c * s\<bar> \<le> 10 ^ 6" by simp
  have d: "fl_mul (Finite c) (Finite s) = Finite (c * s)" using cs by (simp add: to_float_small)
  have 0: "fl_mul (Finite (c * s)) (Finite 0) = Finite 0" by (simp add: to_float_small)
  have 1: "fl_mul (Finite (c * s)) (Finite 1) = Finite (c * s)" using cs by (simp add: to_float_small)
  have x: "fl_add (Finite x) (Finite 0) = Finite x" using assms(1) by (simp add: to_float_small)
  have y: "fl_add (Finite y) (Finite 0) = Finite y" using assms(2) by (simp add: to_float_small)
  have z: "fl_add (Finite 0) (Finite (c * s)) = Finite (c * s)" using cs by (simp add: to_float_small)
  show ?thesis unfolding warp_point_def Let_def prod.case d 0 1 x y z by (rule refl)
qed

lemma nth_warp:
  assumes "k < length ps" "k < length d"
  shows "map (\<lambda>(p, v). warp_point c p v) (zip ps d) ! k = warp_point c (ps ! k) (d ! k)"
  using assms by simp

subsection \<open>The state after the startup\<close>

lemma time_function_grid_shape:
  obtains f where "time_function grid t = Inr f" "shape f = (101, 101)"
  using time_function_grid [of t] by simp

lemma startup_result:
  obtains f0 st where
    "time_function grid 0 = Inr f0"
    "startup = Inr st"
    "alpha st = alpha grid" "xvals st = xvals grid" "yvals st = yvals grid"
    "xs st = xs grid" "ys st = ys grid"
    "mesh_ref st =
       \<lparr>points = points (UniformGrid (101, 101, 1) (Finite (2 / 25), Finite (2 / 25), Finite 1)
                           (Finite (- 4), Finite (- 4), Finite 0)),
        point_arrays = [(''scalars'', flatten f0)]\<rparr>"
    "mesh_warped st =
       \<lparr>points = map (\<lambda>(p, v). warp_point 1 p v)
                   (zip (points (UniformGrid (101, 101, 1)
                                  (Finite (2 / 25), Finite (2 / 25), Finite 1)
                                  (Finite (- 4), Finite (- 4), Finite 0)))
                        (flatten f0)),
        point_arrays = [(''scalars'', flatten f0)]\<rparr>"
    "vtkpan st = mesh_warped st"
    "frame st = \<lparr>frame_value = 0, frame_start = 0, frame_end = 50,
                  interval = 100, loop_policy = ''reflect''\<rparr>"
    "calls st = [Append MeshRef ''scalars'' (flatten f0), AddMesh PlRef MeshRef, Panel PlRef,
                 WarpByScalar MeshRef 1, AddMesh Pl MeshWarped, Panel Pl]"
proof -
  obtain f0 where f0: "time_function grid 0 = Inr f0" "shape f0 = (101, 101)"
    by (rule time_function_grid_shape)
  let ?m0 = "UniformGrid (101, 101, 1) (Finite (2 / 25), Finite (2 / 25), Finite 1)
               (Finite (- 4), Finite (- 4), Finite 0)"
  let ?w = "\<lparr>points = map (\<lambda>(p, v). warp_point 1 p v) (zip (points ?m0) (flatten f0)),
             point_arrays = [(''scalars'', flatten f0)]\<rparr>"
  let ?st = "\<lparr>alpha = alpha grid, xvals = xvals grid, yvals = yvals grid,
          xs = xs grid, ys = ys grid,
          mesh_ref = \<lparr>points = points ?m0, point_arrays = [(''scalars'', flatten f0)]\<rparr>,
          mesh_warped = ?w, vtkpan = ?w,
          frame = \<lparr>frame_value = 0, frame_start = 0, frame_end = 50,
                   interval = 100, loop_policy = ''reflect''\<rparr>,
          calls = [Append MeshRef ''scalars'' (flatten f0), AddMesh PlRef MeshRef, Panel PlRef,
                 WarpByScalar MeshRef 1, AddMesh Pl MeshWarped, Panel Pl]\<rparr>"
  have sp: "fl_sub (Finite (- 4 + 2 / 25)) (Finite (- 4)) = Finite (2 / 25)"
    by (simp add: fl_sub_def to_float_small)
  have st: "startup = Inr ?st"
    unfolding startup_def grid_fields(2,3) getitem_xvals np_min_xvals bind_Inr f0(1) Let_def
      length_linspace sp
    by (simp add: point_arrays_append_def warp_by_scalar_def active_scalars_def length_flatten
        f0(2))
  show ?thesis by (rule that [OF f0(1) st]) simp_all
qed

subsection \<open>One call of the callback in a well-formed state\<close>

lemma bind_eq_Inr: "bind m f = Inr y \<longleftrightarrow> (\<exists>x. m = Inr x \<and> f x = Inr y)"
  by (cases m) simp_all

lemma bind_eq_Inl: "bind m f = Inl e \<longleftrightarrow> m = Inl e \<or> (\<exists>x. m = Inr x \<and> f x = Inl e)"
  by (cases m) simp_all

lemma update_first:
  assumes "case al of [] \<Rightarrow> True | (name, _) # _ \<Rightarrow> name = k"
  shows "AList.update k v al = (k, v) # tl al"
  using assms by (cases al) auto

lemma time_function_state:
  assumes "grid_ok st"
  obtains f where "time_function st t = Inr f" "shape f = shape (xs st)"
    "length (flatten f) = length (data (xs st))"
proof -
  let ?f = "\<lparr>shape = shape (xs st),
            data = map (\<lambda>k. fl_sin (fl_mul
                               (fl_add (fl_pow (fl_div_int (data (ys st) ! k) (alpha st)) (alpha st))
                                  (Finite t))
                               (data (xs st) ! k)))
                     [0..<length (data (xs st))]\<rparr>"
  have 1: "time_function st t = Inr ?f" by (rule time_function_grid_ok [OF assms])
  have 2: "length (flatten ?f) = length (data (xs st))"
    using assms by (simp add: length_flatten grid_ok_def contiguous_def)
  show ?thesis by (rule that [OF 1 _ 2]) simp
qed

lemma update_3d_warp_overflow:
  assumes "\<not> frame_ok fr"
  shows "update_3d_warp fr st = Inl OverflowError"
  by (simp add: update_3d_warp_def int_truediv_5_overflow [OF assms])

lemma update_3d_warp_frame_ok:
  assumes "update_3d_warp fr st = Inr st'"
  shows "frame_ok fr"
  using assms update_3d_warp_overflow [of fr st] by (cases "frame_ok fr") simp_all

lemma update_3d_warp_result:
  assumes "grid_ok st" "mesh_ok st" "frame_ok fr"
  obtains f st' where
    "time_function st (real_of_int fr / 5) = Inr f"
    "length (flatten f) = length (data (xs st))"
    "update_3d_warp fr st = Inr st'"
    "alpha st' = alpha st" "xvals st' = xvals st" "yvals st' = yvals st"
    "xs st' = xs st" "ys st' = ys st" "frame st' = frame st"
    "points (mesh_ref st') = points (mesh_ref st)"
    "point_arrays (mesh_ref st') = (''scalars'', flatten f) # tl (point_arrays (mesh_ref st))"
    "points (mesh_warped st') =
       map (\<lambda>(p, v). warp_point 0.5 p v) (zip (points (mesh_ref st)) (flatten f))"
    "point_arrays (mesh_warped st') =
       AList.update ''scalars'' (flatten f) (point_arrays (mesh_warped st))"
    "vtkpan st' = mesh_warped st'"
    "calls st' = calls st @
       [Append MeshRef ''scalars'' (flatten f), Append MeshWarped ''scalars'' (flatten f),
        WarpByScalar MeshRef 0.5, SetPoints MeshWarped (points (mesh_warped st')),
        Synchronize]"
proof -
  obtain f where f: "time_function st (real_of_int fr / 5) = Inr f"
    "length (flatten f) = length (data (xs st))"
    using time_function_state [OF assms(1)] by blast
  let ?d = "flatten f"
  let ?pw = "map (\<lambda>(p, v). warp_point 0.5 p v) (zip (points (mesh_ref st)) ?d)"
  let ?mw = "\<lparr>points = ?pw,
             point_arrays = AList.update ''scalars'' ?d (point_arrays (mesh_warped st))\<rparr>"
  let ?st' = "st\<lparr>mesh_ref := (mesh_ref st)\<lparr>point_arrays :=
                      (''scalars'', ?d) # tl (point_arrays (mesh_ref st))\<rparr>,
                 mesh_warped := ?mw, vtkpan := ?mw,
                 calls := calls st @
                   [Append MeshRef ''scalars'' ?d, Append MeshWarped ''scalars'' ?d,
                    WarpByScalar MeshRef 0.5, SetPoints MeshWarped ?pw, Synchronize]\<rparr>"
  have l: "length (points (mesh_ref st)) = length ?d"
    "length (points (mesh_warped st)) = length ?d"
    using assms(2) f(2) by (simp_all add: mesh_ok_def)
  have u: "AList.update ''scalars'' ?d (point_arrays (mesh_ref st)) =
             (''scalars'', ?d) # tl (point_arrays (mesh_ref st))"
    using assms(2) by (intro update_first) (simp add: mesh_ok_def)
  have r: "update_3d_warp fr st = Inr ?st'"
    unfolding update_3d_warp_def Let_def int_truediv_5 [OF assms(3)] f(1) bind_Inr
    by (simp add: point_arrays_append_def l u warp_by_scalar_def active_scalars_def
        synchronize_def)
  show ?thesis by (rule that [OF f r]) simp_all
qed

subsection \<open>What every reachable state satisfies\<close>

lemma startup_ok:
  assumes "startup = Inr st"
  shows "grid_ok st" "mesh_ok st"
proof -
  obtain f0 st0 where s: "time_function grid 0 = Inr f0" "startup = Inr st0"
    "alpha st0 = alpha grid" "xs st0 = xs grid" "ys st0 = ys grid"
    "mesh_ref st0 =
       \<lparr>points = points (UniformGrid (101, 101, 1) (Finite (2 / 25), Finite (2 / 25), Finite 1)
                           (Finite (- 4), Finite (- 4), Finite 0)),
        point_arrays = [(''scalars'', flatten f0)]\<rparr>"
    "mesh_warped st0 =
       \<lparr>points = map (\<lambda>(p, v). warp_point 1 p v)
                   (zip (points (UniformGrid (101, 101, 1)
                                  (Finite (2 / 25), Finite (2 / 25), Finite 1)
                                  (Finite (- 4), Finite (- 4), Finite 0)))
                        (flatten f0)),
        point_arrays = [(''scalars'', flatten f0)]\<rparr>"
    by (rule startup_result) blast
  have st: "st0 = st" using assms unfolding s(2) by simp
  obtain f where f: "time_function grid 0 = Inr f" "shape f = (101, 101)"
    by (rule time_function_grid_shape)
  have sh: "shape f0 = (101, 101)" using f s(1) by simp
  show "grid_ok st"
    using grid_ok_grid s(3-5) unfolding st by (simp add: grid_ok_def)
  show "mesh_ok st"
    using s(4,6,7) unfolding st by (simp add: mesh_ok_def grid_fields length_flatten sh)
qed

lemma update_3d_warp_ok:
  assumes "grid_ok st" "mesh_ok st" "update_3d_warp fr st = Inr st'"
  shows "grid_ok st'" "mesh_ok st'" "alpha st' = alpha st" "xvals st' = xvals st"
    "yvals st' = yvals st" "xs st' = xs st" "ys st' = ys st" "frame st' = frame st"
proof -
  note fo = update_3d_warp_frame_ok [OF assms(3)]
  obtain f st1 where r: "time_function st (real_of_int fr / 5) = Inr f"
    "length (flatten f) = length (data (xs st))"
    "update_3d_warp fr st = Inr st1"
    "alpha st1 = alpha st" "xvals st1 = xvals st" "yvals st1 = yvals st"
    "xs st1 = xs st" "ys st1 = ys st" "frame st1 = frame st"
    "points (mesh_ref st1) = points (mesh_ref st)"
    "point_arrays (mesh_ref st1) = (''scalars'', flatten f) # tl (point_arrays (mesh_ref st))"
    "points (mesh_warped st1) =
       map (\<lambda>(p, v). warp_point 0.5 p v) (zip (points (mesh_ref st)) (flatten f))"
    by (rule update_3d_warp_result [OF assms(1,2) fo]) blast
  have st: "st1 = st'" using assms(3) unfolding r(3) by simp
  show "grid_ok st'" using assms(1) r(4,7,8) unfolding st by (simp add: grid_ok_def)
  show "mesh_ok st'" using assms(2) r(2,7,10,11,12) unfolding st by (simp add: mesh_ok_def)
  show "alpha st' = alpha st" "xvals st' = xvals st" "yvals st' = yvals st"
    "xs st' = xs st" "ys st' = ys st" "frame st' = frame st"
    using r(4-9) unfolding st by simp_all
qed

lemma set_value_ok:
  assumes "grid_ok st" "mesh_ok st" "set_value v st = Inr st'"
  shows "grid_ok st'" "mesh_ok st'" "alpha st' = alpha st" "xvals st' = xvals st"
    "yvals st' = yvals st" "xs st' = xs st" "ys st' = ys st"
    "frame st' = (frame st)\<lparr>frame_value := v\<rparr>"
proof -
  let ?s = "st\<lparr>frame := (frame st)\<lparr>frame_value := v\<rparr>\<rparr>"
  have ok: "grid_ok ?s" "mesh_ok ?s" using assms(1,2) by (simp_all add: grid_ok_def mesh_ok_def)
  have "grid_ok st' \<and> mesh_ok st' \<and> alpha st' = alpha st \<and> xvals st' = xvals st \<and>
        yvals st' = yvals st \<and> xs st' = xs st \<and> ys st' = ys st \<and>
        frame st' = (frame st)\<lparr>frame_value := v\<rparr>"
  proof (cases "v = frame_value (frame st)")
    case True
    then have "st' = st" using assms(3) by (simp add: set_value_def)
    then show ?thesis using assms(1,2) True by simp
  next
    case False
    then have u: "update_3d_warp v ?s = Inr st'" using assms(3) by (simp add: set_value_def)
    show ?thesis using update_3d_warp_ok [OF ok u] by simp
  qed
  then show "grid_ok st'" "mesh_ok st'" "alpha st' = alpha st" "xvals st' = xvals st"
    "yvals st' = yvals st" "xs st' = xs st" "ys st' = ys st"
    "frame st' = (frame st)\<lparr>frame_value := v\<rparr>"
    by simp_all
qed

lemma column_ok:
  assumes "grid_ok st" "mesh_ok st" "column st = Inr st'"
  shows "grid_ok st'" "mesh_ok st'" "alpha st' = alpha st" "xvals st' = xvals st"
    "yvals st' = yvals st" "xs st' = xs st" "ys st' = ys st" "frame st' = frame st"
  using update_3d_warp_ok [OF assms(1,2) assms(3) [unfolded column_def]] by simp_all

lemma step_ok:
  assumes "grid_ok st" "mesh_ok st" "step e st = Inr st'"
  shows "grid_ok st'" "mesh_ok st'" "alpha st' = alpha st" "xvals st' = xvals st"
    "yvals st' = yvals st" "xs st' = xs st" "ys st' = ys st"
    "frame_start (frame st') = frame_start (frame st)"
    "frame_end (frame st') = frame_end (frame st)"
proof -
  have "grid_ok st' \<and> mesh_ok st' \<and> alpha st' = alpha st \<and> xvals st' = xvals st \<and>
        yvals st' = yvals st \<and> xs st' = xs st \<and> ys st' = ys st \<and>
        frame_start (frame st') = frame_start (frame st) \<and>
        frame_end (frame st') = frame_end (frame st)"
  proof (cases e)
    case Display
    then have c: "column st = Inr st'" using assms(3) by (simp add: step_def)
    show ?thesis using column_ok [OF assms(1,2) c] by simp
  next
    case (SetValue v)
    then have c: "set_value v st = Inr st'" using assms(3) by (simp add: step_def)
    show ?thesis using set_value_ok [OF assms(1,2) c] by simp
  qed
  then show "grid_ok st'" "mesh_ok st'" "alpha st' = alpha st" "xvals st' = xvals st"
    "yvals st' = yvals st" "xs st' = xs st" "ys st' = ys st"
    "frame_start (frame st') = frame_start (frame st)"
    "frame_end (frame st') = frame_end (frame st)"
    by simp_all
qed

lemma play_ok:
  assumes "grid_ok st" "mesh_ok st" "play es st = Inr st'"
  shows "grid_ok st' \<and> mesh_ok st' \<and> alpha st' = alpha st \<and> xvals st' = xvals st \<and>
         yvals st' = yvals st \<and> xs st' = xs st \<and> ys st' = ys st \<and>
         frame_start (frame st') = frame_start (frame st) \<and>
         frame_end (frame st') = frame_end (frame st)"
  using assms
proof (induction es arbitrary: st)
  case Nil
  then show ?case by simp
next
  case (Cons e es)
  from Cons.prems(3) obtain st1 where s: "step e st = Inr st1" "play es st1 = Inr st'"
    by (auto simp add: bind_eq_Inr)
  note o = step_ok [OF Cons.prems(1,2) s(1)]
  show ?case using Cons.IH [OF o(1,2) s(2)] o(3-9) by simp
qed

lemma set_value_success:
  assumes "grid_ok st" "mesh_ok st" "frame_ok v"
  obtains st' where "set_value v st = Inr st'"
proof (cases "v = frame_value (frame st)")
  case True
  then have "set_value v st = Inr st" by (simp add: set_value_def)
  then show ?thesis by (rule that)
next
  case False
  let ?s = "st\<lparr>frame := (frame st)\<lparr>frame_value := v\<rparr>\<rparr>"
  have ok: "grid_ok ?s" "mesh_ok ?s" using assms(1,2) by (simp_all add: grid_ok_def mesh_ok_def)
  obtain f st' where "time_function ?s (real_of_int v / 5) = Inr f"
    "length (flatten f) = length (data (xs ?s))" "update_3d_warp v ?s = Inr st'"
    by (rule update_3d_warp_result [OF ok assms(3)]) blast
  then have "set_value v st = Inr st'" using False by (simp add: set_value_def)
  then show ?thesis by (rule that)
qed

lemma column_success:
  assumes "grid_ok st" "mesh_ok st" "frame_ok (frame_value (frame st))"
  obtains st' where "column st = Inr st'"
proof -
  obtain f st' where "time_function st (real_of_int (frame_value (frame st)) / 5) = Inr f"
    "length (flatten f) = length (data (xs st))"
    "update_3d_warp (frame_value (frame st)) st = Inr st'"
    by (rule update_3d_warp_result [OF assms]) blast
  then have "column st = Inr st'" by (simp add: column_def)
  then show ?thesis by (rule that)
qed

lemma step_success:
  assumes "grid_ok st" "mesh_ok st" "frame_ok (frame_value (frame st))" "event_ok e"
  obtains st' where "step e st = Inr st'" "frame_ok (frame_value (frame st'))"
proof (cases e)
  case Display
  obtain st' where c: "column st = Inr st'" by (rule column_success [OF assms(1-3)])
  have "frame st' = frame st" by (rule column_ok(8) [OF assms(1,2) c])
  then have "frame_ok (frame_value (frame st'))" using assms(3) by simp
  moreover have "step e st = Inr st'" using Display c by (simp add: step_def)
  ultimately show ?thesis by (rule that [rotated])
next
  case (SetValue v)
  then have v: "frame_ok v" using assms(4) by (simp add: event_ok_def)
  obtain st' where c: "set_value v st = Inr st'"
    by (rule set_value_success [OF assms(1,2) v])
  have "frame st' = (frame st)\<lparr>frame_value := v\<rparr>" by (rule set_value_ok(8) [OF assms(1,2) c])
  then have "frame_ok (frame_value (frame st'))" using v by simp
  moreover have "step e st = Inr st'" using SetValue c by (simp add: step_def)
  ultimately show ?thesis by (rule that [rotated])
qed

lemma play_success:
  assumes "grid_ok st" "mesh_ok st" "frame_ok (frame_value (frame st))" "list_all event_ok es"
  shows "\<exists>st'. play es st = Inr st'"
  using assms
proof (induction es arbitrary: st)
  case Nil
  then show ?case by simp
next
  case (Cons e es)
  from Cons.prems(4) have v: "event_ok e" "list_all event_ok es" by simp_all
  obtain st1 where s: "step e st = Inr st1" "frame_ok (frame_value (frame st1))"
    by (rule step_success [OF Cons.prems(1,2,3) v(1)])
  note o = step_ok [OF Cons.prems(1,2) s(1)]
  show ?case using Cons.IH [OF o(1,2) s(2) v(2)] s(1) by simp
qed

lemma time_function_cong:
  assumes "alpha a = alpha b" "xs a = xs b" "ys a = ys b"
  shows "time_function a t = time_function b t"
  using assms by (simp add: time_function_def)

lemma startup_grid:
  assumes "startup = Inr st"
  shows "alpha st = alpha grid" "xvals st = xvals grid" "yvals st = yvals grid"
    "xs st = xs grid" "ys st = ys grid"
    "frame st = \<lparr>frame_value = 0, frame_start = 0, frame_end = 50,
                  interval = 100, loop_policy = ''reflect''\<rparr>"
proof -
  obtain f0 st0 where s: "time_function grid 0 = Inr f0" "startup = Inr st0"
    "alpha st0 = alpha grid" "xvals st0 = xvals grid" "yvals st0 = yvals grid"
    "xs st0 = xs grid" "ys st0 = ys grid"
    and fr: "frame st0 = \<lparr>frame_value = 0, frame_start = 0, frame_end = 50,
                  interval = 100, loop_policy = ''reflect''\<rparr>"
    by (rule startup_result) blast
  have st: "st0 = st" using assms unfolding s(2) by simp
  show "alpha st = alpha grid" "xvals st = xvals grid" "yvals st = yvals grid"
    "xs st = xs grid" "ys st = ys grid"
    "frame st = \<lparr>frame_value = 0, frame_start = 0, frame_end = 50,
                  interval = 100, loop_policy = ''reflect''\<rparr>"
    using s(3-7) fr unfolding st by simp_all
qed

lemma reachable:
  assumes "startup = Inr st0" "play es st0 = Inr st"
  shows "grid_ok st" "mesh_ok st" "alpha st = alpha grid" "xvals st = xvals grid"
    "yvals st = yvals grid" "xs st = xs grid" "ys st = ys grid"
    "frame_start (frame st) = 0" "frame_end (frame st) = 50"
  using play_ok [OF startup_ok [OF assms(1)] assms(2)] startup_grid [OF assms(1)]
  by simp_all

lemma startup_state:
  obtains st0 where "startup = Inr st0"
  by (rule startup_result) blast

lemma play_from_startup:
  assumes "list_all event_ok es"
  obtains st0 st where "startup = Inr st0" "play es st0 = Inr st"
proof -
  obtain st0 where s: "startup = Inr st0" by (rule startup_state)
  have "frame_ok (frame_value (frame st0))"
    unfolding startup_grid(6) [OF s] by (simp add: frame_ok_def overflows_def max_float_def)
  then obtain st where "play es st0 = Inr st"
    using play_success [OF startup_ok [OF s] _ assms] by blast
  with s show ?thesis by (rule that)
qed

subsection \<open>What the callback leaves behind\<close>

lemma update_3d_warp_view:
  assumes "grid_ok st" "mesh_ok st" "frame_ok fr"
  obtains f st' w where
    "time_function st (real_of_int fr / 5) = Inr f"
    "length (flatten f) = length (data (xs st))"
    "update_3d_warp fr st = Inr st'"
    "active_scalars (mesh_ref st') = Some (flatten f)"
    "map_of (point_arrays (mesh_ref st')) ''scalars'' = Some (flatten f)"
    "map_of (point_arrays (mesh_warped st')) ''scalars'' = Some (flatten f)"
    "warp_by_scalar 0.5 (mesh_ref st') = Inr w"
    "points (mesh_warped st') = points w"
    "vtkpan st' = mesh_warped st'"
    "calls st' = calls st @
       [Append MeshRef ''scalars'' (flatten f), Append MeshWarped ''scalars'' (flatten f),
        WarpByScalar MeshRef 0.5, SetPoints MeshWarped (points w), Synchronize]"
proof -
  obtain f st' where r: "time_function st (real_of_int fr / 5) = Inr f"
    "length (flatten f) = length (data (xs st))"
    "update_3d_warp fr st = Inr st'"
    "alpha st' = alpha st" "xvals st' = xvals st" "yvals st' = yvals st"
    "xs st' = xs st" "ys st' = ys st" "frame st' = frame st"
    "points (mesh_ref st') = points (mesh_ref st)"
    "point_arrays (mesh_ref st') = (''scalars'', flatten f) # tl (point_arrays (mesh_ref st))"
    "points (mesh_warped st') =
       map (\<lambda>(p, v). warp_point 0.5 p v) (zip (points (mesh_ref st)) (flatten f))"
    "point_arrays (mesh_warped st') =
       AList.update ''scalars'' (flatten f) (point_arrays (mesh_warped st))"
    "vtkpan st' = mesh_warped st'"
    "calls st' = calls st @
       [Append MeshRef ''scalars'' (flatten f), Append MeshWarped ''scalars'' (flatten f),
        WarpByScalar MeshRef 0.5, SetPoints MeshWarped (points (mesh_warped st')),
        Synchronize]"
    by (rule update_3d_warp_result [OF assms, of thesis]) blast
  let ?w = "(mesh_ref st')\<lparr>points := points (mesh_warped st')\<rparr>"
  have a: "active_scalars (mesh_ref st') = Some (flatten f)"
    by (simp add: active_scalars_def r(11))
  have w: "warp_by_scalar 0.5 (mesh_ref st') = Inr ?w"
    by (simp add: warp_by_scalar_def a r(10,12))
  have c: "calls st' = calls st @
       [Append MeshRef ''scalars'' (flatten f), Append MeshWarped ''scalars'' (flatten f),
        WarpByScalar MeshRef 0.5, SetPoints MeshWarped (points ?w), Synchronize]"
    using r(15) by simp
  show ?thesis
    by (rule that [OF r(1,2,3) a _ _ w _ r(14) c]) (simp_all add: r(11,13) update_conv')
qed

subsection \<open>What a successful callback must have done\<close>

lemma point_arrays_append_Inr:
  assumes "point_arrays_append d name m = Inr m'"
  shows "m' = m\<lparr>point_arrays := AList.update name d (point_arrays m)\<rparr>"
    "length d = length (points m)"
  using assms by (simp_all add: point_arrays_append_def split: if_splits)

lemma update_3d_warp_Inr:
  assumes "update_3d_warp fr st = Inr st'"
  obtains f mr mw w where
    "time_function st (real_of_int fr / 5) = Inr f"
    "point_arrays_append (flatten f) ''scalars'' (mesh_ref st) = Inr mr"
    "point_arrays_append (flatten f) ''scalars'' (mesh_warped st) = Inr mw"
    "warp_by_scalar 0.5 mr = Inr w"
    "st' = st\<lparr>mesh_ref := mr, mesh_warped := mw\<lparr>points := points w\<rparr>,
               vtkpan := mw\<lparr>points := points w\<rparr>,
               calls := calls st @
                 [Append MeshRef ''scalars'' (flatten f),
                  Append MeshWarped ''scalars'' (flatten f),
                  WarpByScalar MeshRef 0.5, SetPoints MeshWarped (points w), Synchronize]\<rparr>"
proof -
  note t = int_truediv_5 [OF update_3d_warp_frame_ok [OF assms]]
  show ?thesis
    using assms that unfolding update_3d_warp_def Let_def t bind_Inr bind_eq_Inr
    by (auto simp add: synchronize_def)
qed

lemma update_3d_warp_frame:
  assumes "update_3d_warp fr st = Inr st'"
  shows "frame st' = frame st" "alpha st' = alpha st" "xvals st' = xvals st"
    "yvals st' = yvals st" "xs st' = xs st" "ys st' = ys st"
proof -
  obtain f mr mw w where "time_function st (real_of_int fr / 5) = Inr f"
    "point_arrays_append (flatten f) ''scalars'' (mesh_ref st) = Inr mr"
    "point_arrays_append (flatten f) ''scalars'' (mesh_warped st) = Inr mw"
    "warp_by_scalar 0.5 mr = Inr w" and u:
    "st' = st\<lparr>mesh_ref := mr, mesh_warped := mw\<lparr>points := points w\<rparr>,
               vtkpan := mw\<lparr>points := points w\<rparr>,
               calls := calls st @
                 [Append MeshRef ''scalars'' (flatten f),
                  Append MeshWarped ''scalars'' (flatten f),
                  WarpByScalar MeshRef 0.5, SetPoints MeshWarped (points w), Synchronize]\<rparr>"
    by (rule update_3d_warp_Inr [OF assms])
  show "frame st' = frame st" "alpha st' = alpha st" "xvals st' = xvals st"
    "yvals st' = yvals st" "xs st' = xs st" "ys st' = ys st"
    unfolding u by simp_all
qed

subsection \<open>The values of the field\<close>

lemma item_field_real:
  assumes "i < 101" "j < 101" "time_function grid t = Inr f" "time_ok t"
  shows "item f i j =
           Finite (sin ((((- 4 + real i * (2 / 25)) / 2)\<^sup>2 + t) * (- 4 + real j * (2 / 25))))"
  unfolding item_time_function_grid [OF assms(1,2,3)] item_ys_grid(2) [OF assms(1,2)]
    item_xs_grid(2) [OF assms(1,2)]
  by (rule field_real [OF coordinate_bound [OF assms(2)] coordinate_bound [OF assms(1)] assms(4)])

lemma flatten_field_grid:
  assumes "time_function grid t = Inr f" "k < 10201"
  shows "length (flatten f) = 10201" "flatten f ! k = item f (k mod 101) (k div 101)"
proof -
  obtain f' where f': "time_function grid t = Inr f'" "shape f' = (101, 101)"
    by (rule time_function_grid_shape)
  have sh: "shape f = (101, 101)" using assms(1) f' by simp
  show "length (flatten f) = 10201" by (simp add: length_flatten sh)
  show "flatten f ! k = item f (k mod 101) (k div 101)"
    using nth_flatten [of k f] assms(2) by (simp add: sh)
qed

lemma flatten_field_real:
  assumes "time_function grid t = Inr f" "k < 10201" "time_ok t"
  shows "flatten f ! k =
           Finite (sin ((((- 4 + real (k mod 101) * (2 / 25)) / 2)\<^sup>2 + t)
                        * (- 4 + real (k div 101) * (2 / 25))))"
proof -
  have i: "k mod 101 < 101" by simp
  have j: "k div 101 < 101" using assms(2) by simp
  show ?thesis
    unfolding flatten_field_grid(2) [OF assms(1,2)] by (rule item_field_real [OF i j assms(1,3)])
qed

lemma time_ok_frame_ok:
  assumes "time_ok (real_of_int fr / 5)"
  shows "frame_ok fr"
proof -
  have "a \<le> m" if "4 * (a + 4) \<le> m" "0 \<le> a" for a m :: real
    using that by (simp add: algebra_simps)
  then have "\<bar>real_of_int fr / 5\<bar> \<le> max_float" using assms unfolding time_ok_def by simp
  then show ?thesis unfolding frame_ok_def by (rule not_overflows)
qed

lemma time_ok_small:
  assumes "\<bar>t\<bar> \<le> 10 ^ 5"
  shows "time_ok t"
proof -
  have "\<bar>t\<bar> \<le> 100000" "1000000 \<le> max_float" using assms max_float_ge by simp_all
  then show ?thesis unfolding time_ok_def by (simp add: algebra_simps)
qed

lemma time_ok_player:
  assumes "0 \<le> fr" "fr \<le> 50"
  shows "time_ok (real_of_int fr / 5)"
proof -
  have "\<bar>real_of_int fr / 5\<bar> \<le> 10" using assms by simp
  then show ?thesis by (intro time_ok_small) simp
qed

lemma frame_ok_small:
  assumes "\<bar>fr\<bar> \<le> 10 ^ 6"
  shows "frame_ok fr"
proof -
  have "\<bar>real_of_int fr\<bar> \<le> 10 ^ 6" using assms by (metis of_int_abs of_int_le_iff of_int_numeral of_int_power)
  then have "\<bar>real_of_int fr / 5\<bar> \<le> max_float" using max_float_ge by simp
  then show ?thesis unfolding frame_ok_def by (rule not_overflows)
qed

lemma field_overflow:
  "fl_sin (fl_mul (fl_add (fl_pow (fl_div_int (Finite (- 4)) 2) 2) (Finite (10 ^ 308))) (Finite 4))
     = NaN"
proof -
  have 1: "fl_div_int (Finite (- 4)) 2 = Finite (- 2)" by (simp add: to_float_small)
  have 2: "fl_pow (Finite (- 2)) 2 = Finite 4" by (simp add: to_float_small)
  have "\<bar>4 + 10 ^ 308\<bar> \<le> max_float" by (simp add: max_float_def)
  then have 3: "fl_add (Finite 4) (Finite (10 ^ 308)) = Finite (4 + 10 ^ 308)"
    by (simp only: fl_add.simps to_float_Finite)
  have "max_float + 2 ^ 970 \<le> (4 + 10 ^ 308) * 4" by (simp add: max_float_def)
  then have 4: "fl_mul (Finite (4 + 10 ^ 308)) (Finite 4) = PosInf"
    by (simp only: fl_mul.simps to_float_PosInf)
  show ?thesis by (simp only: 1 2 3 4 fl_sin.simps)
qed

lemma item_field_overflow:
  assumes "time_function grid (10 ^ 308) = Inr f"
  shows "item f 0 100 = NaN"
proof -
  have h: "(0::nat) < 101" "(100::nat) < 101" by simp_all
  have y: "item (ys grid) 0 100 = Finite (- 4)" using item_ys_grid(2) [OF h] by simp
  have x: "item (xs grid) 0 100 = Finite 4" using item_xs_grid(2) [OF h] by simp
  show ?thesis
    unfolding item_time_function_grid [OF h assms] x y by (rule field_overflow)
qed

subsection \<open>The warped points at frame 0\<close>

lemma play_Display: "play [Display] st = column st"
  by (cases "column st") (simp_all add: step_def bind_def)

lemma notebook_eq:
  assumes "startup = Inr st0"
  shows "notebook = update_3d_warp 0 st0"
  by (simp add: notebook_def column_def assms startup_grid(6) [OF assms])

lemma sin_bound: "\<bar>sin (x::real)\<bar> \<le> 1"
  by (simp add: abs_le_iff)

lemma frame_0_points:
  fixes x y :: real
  assumes "startup = Inr st0" "k < 10201"
    and x: "x = - 4 + real (k mod 101) * (2 / 25)"
    and y: "y = - 4 + real (k div 101) * (2 / 25)"
  obtains st' where
    "update_3d_warp 0 st0 = Inr st'"
    "length (points (mesh_warped st0)) = 10201"
    "length (points (mesh_warped st')) = 10201"
    "points (mesh_ref st0) ! k = (Finite x, Finite y, Finite 0)"
    "points (mesh_warped st0) ! k = (Finite x, Finite y, Finite (sin ((x / 2)\<^sup>2 * y)))"
    "points (mesh_warped st') ! k = (Finite x, Finite y, Finite (sin ((x / 2)\<^sup>2 * y) / 2))"
proof -
  let ?P = "points (UniformGrid (101, 101, 1) (Finite (2 / 25), Finite (2 / 25), Finite 1)
                      (Finite (- 4), Finite (- 4), Finite 0))"
  obtain f0 s0 where s: "time_function grid 0 = Inr f0" "startup = Inr s0"
    "alpha s0 = alpha grid" "xvals s0 = xvals grid" "yvals s0 = yvals grid"
    "xs s0 = xs grid" "ys s0 = ys grid"
    "mesh_ref s0 = \<lparr>points = ?P, point_arrays = [(''scalars'', flatten f0)]\<rparr>"
    "mesh_warped s0 =
       \<lparr>points = map (\<lambda>(p, v). warp_point 1 p v) (zip ?P (flatten f0)),
        point_arrays = [(''scalars'', flatten f0)]\<rparr>"
    by (rule startup_result) blast
  have e: "s0 = st0" using assms(1) unfolding s(2) by simp
  note s0 = s(3-9) [unfolded e]
  note ok = startup_ok [OF assms(1)]
  have fo: "frame_ok 0" by (intro frame_ok_small) simp
  obtain f st' where u: "time_function st0 (real_of_int 0 / 5) = Inr f"
    "length (flatten f) = length (data (xs st0))"
    "update_3d_warp 0 st0 = Inr st'"
    "alpha st' = alpha st0" "xvals st' = xvals st0" "yvals st' = yvals st0"
    "xs st' = xs st0" "ys st' = ys st0" "frame st' = frame st0"
    "points (mesh_ref st') = points (mesh_ref st0)"
    "point_arrays (mesh_ref st') = (''scalars'', flatten f) # tl (point_arrays (mesh_ref st0))"
    "points (mesh_warped st') =
       map (\<lambda>(p, v). warp_point 0.5 p v) (zip (points (mesh_ref st0)) (flatten f))"
    by (rule update_3d_warp_result [OF ok fo]) blast
  have "time_function st0 (real_of_int 0 / 5) = time_function grid 0"
    using time_function_cong [OF s0(1,4,5), of 0] by simp
  then have f: "f = f0" using u(1) s(1) by simp
  have lP: "length ?P = 10201" by simp
  have ld: "length (flatten f0) = 10201" by (rule flatten_field_grid(1) [OF s(1) assms(2)])
  have i: "k mod 101 < 101" by simp
  have j: "k div 101 < 101" using assms(2) by simp
  have cx: "\<bar>x\<bar> \<le> 4" unfolding x by (rule coordinate_bound [OF i])
  have cy: "\<bar>y\<bar> \<le> 4" unfolding y by (rule coordinate_bound [OF j])
  have Pk: "?P ! k = (Finite x, Finite y, Finite 0)"
    unfolding x y by (rule nth_lattice [OF assms(2)])
  have t0: "time_ok 0" by (intro time_ok_small) simp
  have v: "flatten f0 ! k = Finite (sin ((x / 2)\<^sup>2 * y))"
    using flatten_field_real [OF s(1) assms(2) t0] unfolding x y by simp
  have w0: "points (mesh_warped st0) ! k = (Finite x, Finite y, Finite (sin ((x / 2)\<^sup>2 * y)))"
    unfolding s0(7) mesh.simps nth_warp [of k ?P "flatten f0" 1, unfolded lP ld, OF assms(2) assms(2)]
      Pk v
    using warp_point_finite [OF cx cy sin_bound, of 1 "(x / 2)\<^sup>2 * y"] by simp
  have w1: "points (mesh_warped st') ! k
              = (Finite x, Finite y, Finite (sin ((x / 2)\<^sup>2 * y) / 2))"
    unfolding u(12) s0(6) f mesh.simps
      nth_warp [of k ?P "flatten f0" "0.5", unfolded lP ld, OF assms(2) assms(2)] Pk v
    using warp_point_finite [OF cx cy sin_bound, of "0.5" "(x / 2)\<^sup>2 * y"] by simp
  show ?thesis
  proof (rule that [OF u(3) _ _ _ w0 w1])
    show "length (points (mesh_warped st0)) = 10201" unfolding s0(7) using lP ld by simp
    show "length (points (mesh_warped st')) = 10201" unfolding u(12) s0(6) f using lP ld by simp
    show "points (mesh_ref st0) ! k = (Finite x, Finite y, Finite 0)"
      unfolding s0(6) using Pk by simp
  qed
qed

lemma callback_again:
  assumes "grid_ok st" "mesh_ok st" "update_3d_warp fr st = Inr st1"
  obtains st2 where "update_3d_warp fr st1 = Inr st2" "mesh_warped st2 = mesh_warped st1"
    "mesh_ref st2 = mesh_ref st1" "vtkpan st2 = vtkpan st1"
proof -
  note fo = update_3d_warp_frame_ok [OF assms(3)]
  obtain f s1 where r: "time_function st (real_of_int fr / 5) = Inr f"
    "length (flatten f) = length (data (xs st))"
    "update_3d_warp fr st = Inr s1"
    "alpha s1 = alpha st" "xvals s1 = xvals st" "yvals s1 = yvals st"
    "xs s1 = xs st" "ys s1 = ys st" "frame s1 = frame st"
    "points (mesh_ref s1) = points (mesh_ref st)"
    "point_arrays (mesh_ref s1) = (''scalars'', flatten f) # tl (point_arrays (mesh_ref st))"
    "points (mesh_warped s1) =
       map (\<lambda>(p, v). warp_point 0.5 p v) (zip (points (mesh_ref st)) (flatten f))"
    "point_arrays (mesh_warped s1) =
       AList.update ''scalars'' (flatten f) (point_arrays (mesh_warped st))"
    "vtkpan s1 = mesh_warped s1"
    by (rule update_3d_warp_result [OF assms(1,2) fo]) blast
  have e: "s1 = st1" using assms(3) unfolding r(3) by simp
  note r1 = r(4-14) [unfolded e]
  note ok1 = update_3d_warp_ok(1,2) [OF assms]
  obtain g st2 where q: "time_function st1 (real_of_int fr / 5) = Inr g"
    "length (flatten g) = length (data (xs st1))"
    "update_3d_warp fr st1 = Inr st2"
    "alpha st2 = alpha st1" "xvals st2 = xvals st1" "yvals st2 = yvals st1"
    "xs st2 = xs st1" "ys st2 = ys st1" "frame st2 = frame st1"
    "points (mesh_ref st2) = points (mesh_ref st1)"
    "point_arrays (mesh_ref st2) = (''scalars'', flatten g) # tl (point_arrays (mesh_ref st1))"
    "points (mesh_warped st2) =
       map (\<lambda>(p, v). warp_point 0.5 p v) (zip (points (mesh_ref st1)) (flatten g))"
    "point_arrays (mesh_warped st2) =
       AList.update ''scalars'' (flatten g) (point_arrays (mesh_warped st1))"
    "vtkpan st2 = mesh_warped st2"
    by (rule update_3d_warp_result [OF ok1 fo]) blast
  have "time_function st1 (real_of_int fr / 5) = time_function st (real_of_int fr / 5)"
    by (rule time_function_cong) (simp_all add: r1)
  then have g: "g = f" using q(1) r(1) by simp
  have w: "mesh_warped st2 = mesh_warped st1"
    by (rule mesh.equality) (simp_all add: q(12,13) r1 g)
  have m: "mesh_ref st2 = mesh_ref st1"
    by (rule mesh.equality) (simp_all add: q(10,11) r1 g)
  have v: "vtkpan st2 = vtkpan st1" by (simp add: q(14) r1(11) w)
  show ?thesis by (rule that [OF q(3) w m v])
qed

lemma sin_8_25_pos: "0 < sin (8 / 25 :: real)"
proof -
  have "(8 / 25 :: real) < pi" using pi_ge_two by simp
  then show ?thesis by (intro sin_gt_zero) simp_all
qed

lemma startup_projr: "startup = Inr (projr startup)"
proof -
  obtain st where s: "startup = Inr st" by (rule startup_state)
  show ?thesis unfolding s by simp
qed

lemma frame_too_large: "\<not> frame_ok (10 ^ 310)"
  by (simp add: frame_ok_def overflows_def max_float_def)

lemma frame_5e308:
  "frame_ok (5 * 10 ^ 308)" "real_of_int (5 * 10 ^ 308) / 5 = 10 ^ 308"
  by (simp_all add: frame_ok_def overflows_def max_float_def)

lemma time_function_projr: "time_function grid t = Inr (projr (time_function grid t))"
proof -
  obtain f where f: "time_function grid t = Inr f" "shape f = (101, 101)"
    by (rule time_function_grid_shape)
  show ?thesis unfolding f(1) by simp
qed

section \<open>The claims\<close>



text \<open>
  C2. Every change of the player's value, in every state the notebook reaches, calls the
  callback with the new value. For every value whose time a float can hold, the callback
  computes the field at the time of that value, appends the flattened data to the point
  arrays of the reference mesh and then of the warped mesh, warps the reference mesh (which
  by then carries the new data) with factor 0.5, gives the points of that warp to the
  warped mesh, and synchronises the render panel last, so that the panel shows the warped
  mesh with its new points.
\<close>

theorem value_change_redraws:
  assumes "startup = Inr st0" "play es st0 = Inr st" "v \<noteq> frame_value (frame st)"
    "frame_ok v"
  shows "\<exists>f w st'. set_value v st = Inr st' \<and> frame_value (frame st') = v \<and>
           time_function st (real_of_int v / 5) = Inr f \<and>
           calls st' = calls st @
             [Append MeshRef ''scalars'' (flatten f), Append MeshWarped ''scalars'' (flatten f),
              WarpByScalar MeshRef 0.5, SetPoints MeshWarped (points w), Synchronize] \<and>
           map_of (point_arrays (mesh_ref st')) ''scalars'' = Some (flatten f) \<and>
           map_of (point_arrays (mesh_warped st')) ''scalars'' = Some (flatten f) \<and>
           warp_by_scalar 0.5 (mesh_ref st') = Inr w \<and>
           points (mesh_warped st') = points w \<and>
           vtkpan st' = mesh_warped st'"
proof -
  let ?s = "st\<lparr>frame := (frame st)\<lparr>frame_value := v\<rparr>\<rparr>"
  note r = reachable(1,2) [OF assms(1,2)]
  have ok: "grid_ok ?s" "mesh_ok ?s" using r by (simp_all add: grid_ok_def mesh_ok_def)
  obtain f st' w where u: "time_function ?s (real_of_int v / 5) = Inr f"
    "length (flatten f) = length (data (xs ?s))"
    "update_3d_warp v ?s = Inr st'"
    "active_scalars (mesh_ref st') = Some (flatten f)"
    "map_of (point_arrays (mesh_ref st')) ''scalars'' = Some (flatten f)"
    "map_of (point_arrays (mesh_warped st')) ''scalars'' = Some (flatten f)"
    "warp_by_scalar 0.5 (mesh_ref st') = Inr w"
    "points (mesh_warped st') = points w"
    "vtkpan st' = mesh_warped st'"
    "calls st' = calls ?s @
       [Append MeshRef ''scalars'' (flatten f), Append MeshWarped ''scalars'' (flatten f),
        WarpByScalar MeshRef 0.5, SetPoints MeshWarped (points w), Synchronize]"
    by (rule update_3d_warp_view [OF ok assms(4)])
  have sv: "set_value v st = Inr st'" using assms(3) u(3) by (simp add: set_value_def)
  have fv: "frame_value (frame st') = v" using update_3d_warp_frame(1) [OF u(3)] by simp
  have tf: "time_function st (real_of_int v / 5) = Inr f"
    using u(1) time_function_cong [of st ?s "real_of_int v / 5"] by simp
  have c: "calls st' = calls st @
       [Append MeshRef ''scalars'' (flatten f), Append MeshWarped ''scalars'' (flatten f),
        WarpByScalar MeshRef 0.5, SetPoints MeshWarped (points w), Synchronize]"
    using u(10) by simp
  show ?thesis
    by (intro exI [of _ f] exI [of _ w] exI [of _ st'] conjI sv fv tf c u(5,6,7,8,9))
qed

theorem value_change_redraws_witness:
  "\<exists>st0 f w st'. startup = Inr st0 \<and> play [] st0 = Inr st0 \<and> 1 \<noteq> frame_value (frame st0) \<and>
     frame_ok 1 \<and> set_value 1 st0 = Inr st' \<and> frame_value (frame st') = 1 \<and>
     time_function st0 (real_of_int 1 / 5) = Inr f \<and>
     calls st' = calls st0 @
       [Append MeshRef ''scalars'' (flatten f), Append MeshWarped ''scalars'' (flatten f),
        WarpByScalar MeshRef 0.5, SetPoints MeshWarped (points w), Synchronize] \<and>
     warp_by_scalar 0.5 (mesh_ref st') = Inr w \<and>
     points (mesh_warped st') = points w \<and> vtkpan st' = mesh_warped st'"
proof -
  obtain st0 where r: "startup = Inr st0" by (rule startup_state)
  have p: "play [] st0 = Inr st0" by simp
  have n: "1 \<noteq> frame_value (frame st0)" by (simp add: startup_grid(6) [OF r])
  have o: "frame_ok 1" by (intro frame_ok_small) simp
  from value_change_redraws [OF r p n o]
  obtain f w st' where u: "set_value 1 st0 = Inr st'" "frame_value (frame st') = 1"
     "time_function st0 (real_of_int 1 / 5) = Inr f"
     "calls st' = calls st0 @
       [Append MeshRef ''scalars'' (flatten f), Append MeshWarped ''scalars'' (flatten f),
        WarpByScalar MeshRef 0.5, SetPoints MeshWarped (points w), Synchronize]"
     "map_of (point_arrays (mesh_ref st')) ''scalars'' = Some (flatten f)"
     "map_of (point_arrays (mesh_warped st')) ''scalars'' = Some (flatten f)"
     "warp_by_scalar 0.5 (mesh_ref st') = Inr w"
     "points (mesh_warped st') = points w" "vtkpan st' = mesh_warped st'"
    by (elim exE conjE)
  show ?thesis
    by (intro exI [of _ st0] exI [of _ f] exI [of _ w] exI [of _ st'] conjI r p n o
        u(1,2,3,4,7,8,9))
qed

text \<open>
  C3, as stated, fails. Called with frame 0 in the state that lines 28 to 74 leave, which is
  what line 86 does, the callback does not give the warped mesh the points it was created
  with. Point 5151 of the warped mesh, which lies over \<open>(- 4, 0.08)\<close>, is created at
  height \<open>sin 0.32\<close> and is moved by the callback to half that height.
\<close>

theorem frame_0_moves_point_5151:
  "startup = Inr (projr startup) \<and>
   update_3d_warp 0 (projr startup) = Inr (projr (update_3d_warp 0 (projr startup))) \<and>
   points (mesh_warped (projr startup)) ! 5151
     = (Finite (- 4), Finite (2 / 25), Finite (sin (8 / 25))) \<and>
   points (mesh_warped (projr (update_3d_warp 0 (projr startup)))) ! 5151
     = (Finite (- 4), Finite (2 / 25), Finite (sin (8 / 25) / 2)) \<and>
   points (mesh_warped (projr (update_3d_warp 0 (projr startup))))
     \<noteq> points (mesh_warped (projr startup))"
proof -
  let ?st0 = "projr startup"
  have k: "(5151::nat) < 10201" by simp
  have x: "(- 4::real) = - 4 + real (5151 mod 101) * (2 / 25)" by simp
  have y: "(2 / 25::real) = - 4 + real (5151 div 101) * (2 / 25)" by simp
  obtain st' where u: "update_3d_warp 0 ?st0 = Inr st'"
    "length (points (mesh_warped ?st0)) = 10201"
    "length (points (mesh_warped st')) = 10201"
    "points (mesh_ref ?st0) ! 5151 = (Finite (- 4), Finite (2 / 25), Finite 0)"
    "points (mesh_warped ?st0) ! 5151
       = (Finite (- 4), Finite (2 / 25), Finite (sin ((- 4 / 2)\<^sup>2 * (2 / 25))))"
    "points (mesh_warped st') ! 5151
       = (Finite (- 4), Finite (2 / 25), Finite (sin ((- 4 / 2)\<^sup>2 * (2 / 25)) / 2))"
    by (rule frame_0_points [OF startup_projr k x y])
  have st': "projr (update_3d_warp 0 ?st0) = st'" by (simp add: u(1))
  have v: "sin ((- 4 / 2)\<^sup>2 * (2 / 25) :: real) = sin (8 / 25)"
    by (simp add: power2_eq_square)
  have a: "points (mesh_warped ?st0) ! 5151 = (Finite (- 4), Finite (2 / 25), Finite (sin (8 / 25)))"
    unfolding u(5) v by (rule refl)
  have b: "points (mesh_warped st') ! 5151
             = (Finite (- 4), Finite (2 / 25), Finite (sin (8 / 25) / 2))"
    unfolding u(6) v by (rule refl)
  have "points (mesh_warped st') ! 5151 \<noteq> points (mesh_warped ?st0) ! 5151"
    unfolding a b using sin_8_25_pos by simp
  then have c: "points (mesh_warped st') \<noteq> points (mesh_warped ?st0)" by auto
  show ?thesis unfolding st' by (intro conjI startup_projr u(1) a b c)
qed

text \<open>
  C3, amended. The points that the callback gives the warped mesh at frame 0 are not the
  points the warped mesh was created with at line 62: it is created by a warp of the
  reference mesh with the default factor 1, and the callback warps with factor 0.5. The
  callback keeps the number of points and the \<open>x\<close> and \<open>y\<close> of every point and halves
  its height: the point that the reference mesh has at \<open>(x, y, 0)\<close> is created at height
  \<open>sin ((x / 2)\<^sup>2 * y)\<close> and moved to half of it. (The data are flattened column by
  column, so the point over \<open>(x, y)\<close> carries the value that the field of time 0 has where
  the two coordinates are exchanged.) The callback at frame 0 does reproduce the surface
  that the whole notebook leaves, because line 86 has by then called it once with frame 0:
  called again with frame 0, it leaves the warped mesh and the render panel as they are.
  The state the whole notebook leaves is the one that the event \<open>Display\<close> leads to.
\<close>

theorem frame_0_halves_heights:
  fixes x y :: real
  assumes "k < 10201"
    and "x = - 4 + real (k mod 101) * (2 / 25)"
    and "y = - 4 + real (k div 101) * (2 / 25)"
  shows "\<exists>st0 st1 st2. startup = Inr st0 \<and> update_3d_warp 0 st0 = Inr st1 \<and>
           notebook = Inr st1 \<and> play [Display] st0 = Inr st1 \<and>
           length (points (mesh_warped st0)) = 10201 \<and>
           length (points (mesh_warped st1)) = 10201 \<and>
           points (mesh_ref st0) ! k = (Finite x, Finite y, Finite 0) \<and>
           points (mesh_warped st0) ! k = (Finite x, Finite y, Finite (sin ((x / 2)\<^sup>2 * y))) \<and>
           points (mesh_warped st1) ! k
             = (Finite x, Finite y, Finite (sin ((x / 2)\<^sup>2 * y) / 2)) \<and>
           update_3d_warp 0 st1 = Inr st2 \<and> mesh_warped st2 = mesh_warped st1 \<and>
           vtkpan st2 = vtkpan st1"
proof -
  let ?st0 = "projr startup"
  obtain st1 where u: "update_3d_warp 0 ?st0 = Inr st1"
    "length (points (mesh_warped ?st0)) = 10201"
    "length (points (mesh_warped st1)) = 10201"
    "points (mesh_ref ?st0) ! k = (Finite x, Finite y, Finite 0)"
    "points (mesh_warped ?st0) ! k = (Finite x, Finite y, Finite (sin ((x / 2)\<^sup>2 * y)))"
    "points (mesh_warped st1) ! k = (Finite x, Finite y, Finite (sin ((x / 2)\<^sup>2 * y) / 2))"
    by (rule frame_0_points [OF startup_projr assms])
  have n: "notebook = Inr st1" unfolding notebook_eq [OF startup_projr] by (rule u(1))
  have p: "play [Display] ?st0 = Inr st1"
    unfolding play_Display column_def startup_grid(6) [OF startup_projr] using u(1) by simp
  obtain st2 where a: "update_3d_warp 0 st1 = Inr st2" "mesh_warped st2 = mesh_warped st1"
    "mesh_ref st2 = mesh_ref st1" "vtkpan st2 = vtkpan st1"
    by (rule callback_again [OF startup_ok [OF startup_projr] u(1)])
  show ?thesis
    by (intro exI [of _ ?st0] exI [of _ st1] exI [of _ st2] conjI startup_projr u n p a(1,2,4))
qed

theorem frame_0_halves_heights_witness:
  "(5151::nat) < 10201 \<and> (- 4::real) = - 4 + real (5151 mod 101) * (2 / 25) \<and>
   (2 / 25::real) = - 4 + real (5151 div 101) * (2 / 25) \<and>
   (\<exists>st0 st1 st2. startup = Inr st0 \<and> update_3d_warp 0 st0 = Inr st1 \<and> notebook = Inr st1 \<and>
      points (mesh_warped st0) ! 5151
        = (Finite (- 4), Finite (2 / 25), Finite (sin ((- 4 / 2)\<^sup>2 * (2 / 25)))) \<and>
      points (mesh_warped st1) ! 5151
        = (Finite (- 4), Finite (2 / 25), Finite (sin ((- 4 / 2)\<^sup>2 * (2 / 25)) / 2)) \<and>
      update_3d_warp 0 st1 = Inr st2 \<and> mesh_warped st2 = mesh_warped st1)"
proof -
  have k: "(5151::nat) < 10201" by simp
  have x: "(- 4::real) = - 4 + real (5151 mod 101) * (2 / 25)" by simp
  have y: "(2 / 25::real) = - 4 + real (5151 div 101) * (2 / 25)" by simp
  from frame_0_halves_heights [OF k x y]
  obtain st0 st1 st2 where u: "startup = Inr st0" "update_3d_warp 0 st0 = Inr st1"
      "notebook = Inr st1" "play [Display] st0 = Inr st1"
      "length (points (mesh_warped st0)) = 10201"
      "length (points (mesh_warped st1)) = 10201"
      "points (mesh_ref st0) ! 5151 = (Finite (- 4), Finite (2 / 25), Finite 0)"
      "points (mesh_warped st0) ! 5151
        = (Finite (- 4), Finite (2 / 25), Finite (sin ((- 4 / 2)\<^sup>2 * (2 / 25))))"
      "points (mesh_warped st1) ! 5151
        = (Finite (- 4), Finite (2 / 25), Finite (sin ((- 4 / 2)\<^sup>2 * (2 / 25)) / 2))"
      "update_3d_warp 0 st1 = Inr st2" "mesh_warped st2 = mesh_warped st1"
      "vtkpan st2 = vtkpan st1"
    by (elim exE conjE)
  show ?thesis
    by (intro conjI k x y exI [of _ st0] exI [of _ st1] exI [of _ st2] u(1,2,3,8,9,10,11))
qed

text \<open>
  C4. The coordinate grid is fixed. In every state the notebook reaches, whatever values
  the player has taken, \<^verbatim>\<open>xvals\<close>, \<^verbatim>\<open>yvals\<close>, \<^verbatim>\<open>xs\<close> and \<^verbatim>\<open>ys\<close> are the arrays
  that the second cell computed, 101 samples each way and 101 by 101 for the meshgrid; a
  further call of the callback, which returns for every frame whose time a float can hold,
  leaves them as they are; and the field at any time is computed from them, so it is the
  field of the grid as first built.
\<close>

theorem grid_fixed:
  assumes "startup = Inr st0" "play es st0 = Inr st"
  shows "xvals st = xvals st0 \<and> yvals st = yvals st0 \<and> xs st = xs st0 \<and> ys st = ys st0 \<and>
         xvals st = linspace (- 4) 4 101 \<and> yvals st = linspace (- 4) 4 101 \<and>
         length (xvals st) = 101 \<and> length (yvals st) = 101 \<and>
         (xs st, ys st) = meshgrid (xvals st) (yvals st) \<and>
         shape (xs st) = (101, 101) \<and> shape (ys st) = (101, 101) \<and>
         (update_3d_warp fr st = Inr st' \<longrightarrow>
            xvals st' = xvals st \<and> yvals st' = yvals st \<and> xs st' = xs st \<and> ys st' = ys st) \<and>
         (frame_ok fr \<longrightarrow>
            (\<exists>st'. update_3d_warp fr st = Inr st' \<and> xvals st' = xvals st \<and>
               yvals st' = yvals st \<and> xs st' = xs st \<and> ys st' = ys st)) \<and>
         time_function st t = time_function grid t"
proof -
  note r = reachable [OF assms]
  note r0 = startup_grid [OF assms(1)]
  have 0: "update_3d_warp fr st = Inr st' \<longrightarrow>
            xvals st' = xvals st \<and> yvals st' = yvals st \<and> xs st' = xs st \<and> ys st' = ys st"
    using update_3d_warp_frame(3-6) [of fr st st'] by blast
  have 1: "frame_ok fr \<longrightarrow>
            (\<exists>st'. update_3d_warp fr st = Inr st' \<and> xvals st' = xvals st \<and>
               yvals st' = yvals st \<and> xs st' = xs st \<and> ys st' = ys st)"
  proof
    assume fo: "frame_ok fr"
    obtain f s' w where u: "time_function st (real_of_int fr / 5) = Inr f"
      "length (flatten f) = length (data (xs st))"
      "update_3d_warp fr st = Inr s'"
      by (rule update_3d_warp_view [OF r(1,2) fo, of thesis]) blast
    note g = update_3d_warp_frame [OF u(3)]
    show "\<exists>st'. update_3d_warp fr st = Inr st' \<and> xvals st' = xvals st \<and>
               yvals st' = yvals st \<and> xs st' = xs st \<and> ys st' = ys st"
      by (intro exI [of _ s'] conjI u(3) g(3,4,5,6))
  qed
  have 2: "time_function st t = time_function grid t"
    by (rule time_function_cong) (simp_all add: r)
  have 3: "(xs st, ys st) = meshgrid (xvals st) (yvals st)"
    unfolding r(4,5,6,7) by (simp add: grid_def Let_def split: prod.splits)
  have 4: "xvals st = xvals st0" "yvals st = yvals st0" "xs st = xs st0" "ys st = ys st0"
    "xvals st = linspace (- 4) 4 101" "yvals st = linspace (- 4) 4 101"
    "length (xvals st) = 101" "length (yvals st) = 101"
    "shape (xs st) = (101, 101)" "shape (ys st) = (101, 101)"
    by (simp_all add: r r0 grid_fields)
  show ?thesis by (intro conjI 0 1 2 3 4)
qed

theorem grid_fixed_witness:
  "\<exists>st0 st st'. startup = Inr st0 \<and>
     play [Display, SetValue 1, SetValue 2, SetValue 1] st0 = Inr st \<and> frame_ok 7 \<and>
     xvals st = linspace (- 4) 4 101 \<and> shape (xs st) = (101, 101) \<and> xs st = xs st0 \<and>
     update_3d_warp 7 st = Inr st' \<and> xs st' = xs st"
proof -
  have o: "frame_ok 1" "frame_ok 2" "frame_ok 7" by (intro frame_ok_small, simp)+
  then have "list_all event_ok [Display, SetValue 1, SetValue 2, SetValue 1]"
    by (simp add: event_ok_def)
  then obtain st0 st where r: "startup = Inr st0"
    "play [Display, SetValue 1, SetValue 2, SetValue 1] st0 = Inr st"
    by (rule play_from_startup)
  note g = grid_fixed [OF r, of 7 st 0]
  have a: "xvals st = linspace (- 4) 4 101" "shape (xs st) = (101, 101)" "xs st = xs st0"
    using g by blast+
  have "\<exists>st'. update_3d_warp 7 st = Inr st' \<and> xvals st' = xvals st \<and>
               yvals st' = yvals st \<and> xs st' = xs st \<and> ys st' = ys st"
    using g o(3) by blast
  then obtain st' where b: "update_3d_warp 7 st = Inr st'" "xs st' = xs st" by blast
  show ?thesis by (intro exI [of _ st0] exI [of _ st] exI [of _ st'] conjI r o(3) a b)
qed

text \<open>
  C5. The notebook has no validation, retry or recovery of its own, and every frame goes
  the same way. In every state the notebook reaches, whatever integer the callback is
  called with, inside the player's range or not, negative or not: if a float can hold
  \<^verbatim>\<open>frame/5\<close>, the callback returns after the same five library calls; if none can, it
  ends with the OverflowError of that division, which nothing catches. The callback raises
  nothing else, and the field function raises nothing at all.
\<close>

theorem single_path:
  assumes "startup = Inr st0" "play es st0 = Inr st"
  shows "(frame_ok fr \<longrightarrow>
            (\<exists>f w st'. update_3d_warp fr st = Inr st' \<and>
               time_function st (real_of_int fr / 5) = Inr f \<and>
               warp_by_scalar 0.5 (mesh_ref st') = Inr w \<and>
               calls st' = calls st @
                 [Append MeshRef ''scalars'' (flatten f),
                  Append MeshWarped ''scalars'' (flatten f),
                  WarpByScalar MeshRef 0.5, SetPoints MeshWarped (points w), Synchronize])) \<and>
         (\<not> frame_ok fr \<longrightarrow> update_3d_warp fr st = Inl OverflowError) \<and>
         (update_3d_warp fr st = Inl e \<longleftrightarrow> e = OverflowError \<and> \<not> frame_ok fr) \<and>
         (\<exists>f. time_function st t = Inr f)"
proof -
  note r = reachable(1,2) [OF assms]
  have 1: "\<exists>f w st'. update_3d_warp fr st = Inr st' \<and>
               time_function st (real_of_int fr / 5) = Inr f \<and>
               warp_by_scalar 0.5 (mesh_ref st') = Inr w \<and>
               calls st' = calls st @
                 [Append MeshRef ''scalars'' (flatten f),
                  Append MeshWarped ''scalars'' (flatten f),
                  WarpByScalar MeshRef 0.5, SetPoints MeshWarped (points w), Synchronize]"
    if fo: "frame_ok fr"
  proof -
    obtain f st' w where u: "time_function st (real_of_int fr / 5) = Inr f"
      "length (flatten f) = length (data (xs st))"
      "update_3d_warp fr st = Inr st'"
      "active_scalars (mesh_ref st') = Some (flatten f)"
      "map_of (point_arrays (mesh_ref st')) ''scalars'' = Some (flatten f)"
      "map_of (point_arrays (mesh_warped st')) ''scalars'' = Some (flatten f)"
      "warp_by_scalar 0.5 (mesh_ref st') = Inr w"
      "points (mesh_warped st') = points w"
      "vtkpan st' = mesh_warped st'"
      "calls st' = calls st @
         [Append MeshRef ''scalars'' (flatten f), Append MeshWarped ''scalars'' (flatten f),
          WarpByScalar MeshRef 0.5, SetPoints MeshWarped (points w), Synchronize]"
      by (rule update_3d_warp_view [OF r fo])
    show ?thesis by (intro exI [of _ f] exI [of _ w] exI [of _ st'] conjI u(3,1,7,10))
  qed
  have 2: "update_3d_warp fr st = Inl OverflowError" if "\<not> frame_ok fr"
    by (rule update_3d_warp_overflow [OF that])
  have 3: "update_3d_warp fr st = Inl e \<longleftrightarrow> e = OverflowError \<and> \<not> frame_ok fr"
  proof (cases "frame_ok fr")
    case True
    from 1 [OF True] obtain st' where "update_3d_warp fr st = Inr st'" by blast
    then show ?thesis using True by simp
  next
    case False
    then show ?thesis using 2 [OF False] by auto
  qed
  obtain f where "time_function st t = Inr f"
    by (rule time_function_state [OF r(1), of t thesis])
  then have 4: "\<exists>f. time_function st t = Inr f" by blast
  show ?thesis using 1 2 3 4 by blast
qed

theorem single_path_witness:
  "\<exists>st0. startup = Inr st0 \<and> play [] st0 = Inr st0 \<and> frame_ok (- 7) \<and> \<not> frame_ok (10 ^ 310) \<and>
     (\<exists>st'. update_3d_warp (- 7) st0 = Inr st' \<and> length (calls st') = length (calls st0) + 5) \<and>
     update_3d_warp (10 ^ 310) st0 = Inl OverflowError"
proof -
  obtain st0 where r: "startup = Inr st0" by (rule startup_state)
  have p: "play [] st0 = Inr st0" by simp
  have o: "frame_ok (- 7)" by (intro frame_ok_small) simp
  note a = single_path [OF r p, of "- 7" OverflowError 0]
  have "\<exists>f w st'. update_3d_warp (- 7) st0 = Inr st' \<and>
               time_function st0 (real_of_int (- 7) / 5) = Inr f \<and>
               warp_by_scalar 0.5 (mesh_ref st') = Inr w \<and>
               calls st' = calls st0 @
                 [Append MeshRef ''scalars'' (flatten f),
                  Append MeshWarped ''scalars'' (flatten f),
                  WarpByScalar MeshRef 0.5, SetPoints MeshWarped (points w), Synchronize]"
    using a o by blast
  then obtain f w st' where u: "update_3d_warp (- 7) st0 = Inr st'"
    "time_function st0 (real_of_int (- 7) / 5) = Inr f"
    "warp_by_scalar 0.5 (mesh_ref st') = Inr w"
    "calls st' = calls st0 @
           [Append MeshRef ''scalars'' (flatten f), Append MeshWarped ''scalars'' (flatten f),
            WarpByScalar MeshRef 0.5, SetPoints MeshWarped (points w), Synchronize]"
    by (elim exE conjE)
  have 1: "\<exists>st'. update_3d_warp (- 7) st0 = Inr st' \<and> length (calls st') = length (calls st0) + 5"
    using u(1,4) by simp
  have 2: "update_3d_warp (10 ^ 310) st0 = Inl OverflowError"
    using single_path [OF r p, of "10 ^ 310" OverflowError 0] frame_too_large by blast
  show ?thesis by (intro exI [of _ st0] conjI r p o frame_too_large 1 2)
qed

text \<open>
  C6. Evaluating the field is total: for every real time, \<^verbatim>\<open>time_function\<close> returns an
  array over the whole grid and raises nothing, on the grid as the second cell builds it
  and in every state the notebook reaches afterwards; and the notebook does reach a state
  after any run of player values whose times floats can hold.
\<close>

theorem time_function_total:
  "(\<exists>f. time_function grid t = Inr f \<and> shape f = (101, 101) \<and> length (data f) = 10201) \<and>
   (startup = Inr st0 \<and> play es st0 = Inr st \<longrightarrow>
      (\<exists>f. time_function st t = Inr f \<and> shape f = (101, 101) \<and> length (data f) = 10201)) \<and>
   (list_all event_ok es \<longrightarrow>
      (\<exists>st0 st f. startup = Inr st0 \<and> play es st0 = Inr st \<and> time_function st t = Inr f \<and>
         shape f = (101, 101) \<and> length (data f) = 10201))"
proof -
  have g: "\<exists>f. time_function grid t = Inr f \<and> shape f = (101, 101) \<and> length (data f) = 10201"
    unfolding time_function_grid by simp
  have 1: "\<exists>f. time_function st t = Inr f \<and> shape f = (101, 101) \<and> length (data f) = 10201"
    if r: "startup = Inr st0" "play es st0 = Inr st" for st0 st
  proof -
    have "time_function st t = time_function grid t"
      by (rule time_function_cong) (simp_all add: reachable [OF r])
    with g show ?thesis by simp
  qed
  have 2: "\<exists>st0 st f. startup = Inr st0 \<and> play es st0 = Inr st \<and> time_function st t = Inr f \<and>
         shape f = (101, 101) \<and> length (data f) = 10201"
    if l: "list_all event_ok es"
  proof -
    obtain st0 st where r: "startup = Inr st0" "play es st0 = Inr st"
      by (rule play_from_startup [OF l])
    from 1 [OF r] r show ?thesis by blast
  qed
  show ?thesis using g 1 2 by blast
qed

theorem time_function_total_witness:
  "list_all event_ok [Display, SetValue 3, SetValue 50] \<and>
   (\<exists>st0 st f. startup = Inr st0 \<and> play [Display, SetValue 3, SetValue 50] st0 = Inr st \<and>
      time_function st (1 / 3) = Inr f \<and> shape f = (101, 101))"
proof -
  have "frame_ok 3" "frame_ok 50" by (intro frame_ok_small, simp)+
  then have l: "list_all event_ok [Display, SetValue 3, SetValue 50]"
    by (simp add: event_ok_def)
  have "\<exists>st0 st f. startup = Inr st0 \<and> play [Display, SetValue 3, SetValue 50] st0 = Inr st \<and>
      time_function st (1 / 3) = Inr f \<and> shape f = (101, 101) \<and> length (data f) = 10201"
    using time_function_total [of "1 / 3" _ "[Display, SetValue 3, SetValue 50]"] l by blast
  then show ?thesis using l by blast
qed

text \<open>
  C7, as stated, fails: the warp does not come before any rendering. Of the library calls
  of the startup, in their order, the third hands the plotter of the reference mesh to a
  render panel and only the fourth is the warp.
\<close>

theorem panel_before_warp:
  "startup = Inr (projr startup) \<and>
   calls (projr startup) ! 1 = AddMesh PlRef MeshRef \<and>
   calls (projr startup) ! 2 = Panel PlRef \<and>
   calls (projr startup) ! 3 = WarpByScalar MeshRef 1"
proof -
  obtain f0 st where s: "time_function grid 0 = Inr f0" "startup = Inr st"
    "calls st = [Append MeshRef ''scalars'' (flatten f0), AddMesh PlRef MeshRef, Panel PlRef,
                 WarpByScalar MeshRef 1, AddMesh Pl MeshWarped, Panel Pl]"
    by (rule startup_result) blast
  have "projr startup = st" by (simp add: s(2))
  then show ?thesis using s(2,3) by simp
qed

text \<open>
  C7, amended. The startup computes the field at time 0, appends it flattened to the point
  arrays of the reference mesh as \<^verbatim>\<open>'scalars'\<close>, and only then derives the warped mesh
  from the reference mesh by the warp; the warp comes before the warped mesh is added to
  its plotter and shown in its render panel, and after the reference mesh has been added
  to its own plotter and shown in its own render panel.
\<close>

theorem startup_order:
  "\<exists>f0 st. time_function grid 0 = Inr f0 \<and> startup = Inr st \<and>
     point_arrays (mesh_ref st) = [(''scalars'', flatten f0)] \<and>
     warp_by_scalar 1 (mesh_ref st) = Inr (mesh_warped st) \<and>
     vtkpan st = mesh_warped st \<and>
     calls st = [Append MeshRef ''scalars'' (flatten f0), AddMesh PlRef MeshRef, Panel PlRef,
                 WarpByScalar MeshRef 1, AddMesh Pl MeshWarped, Panel Pl]"
proof -
  let ?P = "points (UniformGrid (101, 101, 1) (Finite (2 / 25), Finite (2 / 25), Finite 1)
                      (Finite (- 4), Finite (- 4), Finite 0))"
  obtain f0 st where s: "time_function grid 0 = Inr f0" "startup = Inr st"
    "mesh_ref st = \<lparr>points = ?P, point_arrays = [(''scalars'', flatten f0)]\<rparr>"
    "mesh_warped st =
       \<lparr>points = map (\<lambda>(p, v). warp_point 1 p v) (zip ?P (flatten f0)),
        point_arrays = [(''scalars'', flatten f0)]\<rparr>"
    "vtkpan st = mesh_warped st"
    "calls st = [Append MeshRef ''scalars'' (flatten f0), AddMesh PlRef MeshRef, Panel PlRef,
                 WarpByScalar MeshRef 1, AddMesh Pl MeshWarped, Panel Pl]"
    by (rule startup_result) blast
  have a: "point_arrays (mesh_ref st) = [(''scalars'', flatten f0)]" by (simp add: s(3))
  have w: "warp_by_scalar 1 (mesh_ref st) = Inr (mesh_warped st)"
    unfolding s(3,4) by (simp add: warp_by_scalar_def active_scalars_def)
  show ?thesis by (intro exI [of _ f0] exI [of _ st] conjI s(1,2,5,6) a w)
qed

text \<open>
  C8. For every frame value \<open>v\<close> whose time a float can hold, and so for every value of
  the player, the callback evaluates the field at time \<open>v / 5\<close>: in every state the
  notebook reaches it returns, and the array it leaves as \<^verbatim>\<open>'scalars'\<close> in both meshes is
  the flattened field of time \<open>v / 5\<close>. The player runs from frame 0 to frame 50, so the
  times run from 0 to 10, and two consecutive frames are 0.2 apart.
\<close>

theorem callback_time:
  assumes "startup = Inr st0" "play es st0 = Inr st"
  shows "(frame_ok v \<longrightarrow>
            (\<exists>f st'. time_function st (real_of_int v / 5) = Inr f \<and>
               update_3d_warp v st = Inr st' \<and>
               active_scalars (mesh_ref st') = Some (flatten f) \<and>
               map_of (point_arrays (mesh_warped st')) ''scalars'' = Some (flatten f))) \<and>
         (frame_start (frame st) \<le> v \<and> v \<le> frame_end (frame st) \<longrightarrow> frame_ok v) \<and>
         frame_start (frame st) = 0 \<and> frame_end (frame st) = 50 \<and>
         real_of_int (frame_start (frame st)) / 5 = 0 \<and>
         real_of_int (frame_end (frame st)) / 5 = 10 \<and>
         real_of_int (v + 1) / 5 - real_of_int v / 5 = 2 / 10"
proof -
  note r = reachable(1,2) [OF assms]
  note fr = reachable(8,9) [OF assms]
  have 1: "frame_ok v \<longrightarrow>
            (\<exists>f st'. time_function st (real_of_int v / 5) = Inr f \<and>
               update_3d_warp v st = Inr st' \<and>
               active_scalars (mesh_ref st') = Some (flatten f) \<and>
               map_of (point_arrays (mesh_warped st')) ''scalars'' = Some (flatten f))"
  proof
    assume fo: "frame_ok v"
    obtain f st' w where u: "time_function st (real_of_int v / 5) = Inr f"
      "length (flatten f) = length (data (xs st))"
      "update_3d_warp v st = Inr st'"
      "active_scalars (mesh_ref st') = Some (flatten f)"
      "map_of (point_arrays (mesh_ref st')) ''scalars'' = Some (flatten f)"
      "map_of (point_arrays (mesh_warped st')) ''scalars'' = Some (flatten f)"
      by (rule update_3d_warp_view [OF r fo, of thesis]) blast
    show "\<exists>f st'. time_function st (real_of_int v / 5) = Inr f \<and>
               update_3d_warp v st = Inr st' \<and>
               active_scalars (mesh_ref st') = Some (flatten f) \<and>
               map_of (point_arrays (mesh_warped st')) ''scalars'' = Some (flatten f)"
      by (intro exI [of _ f] exI [of _ st'] conjI u(1,3,4,6))
  qed
  have 2: "real_of_int (v + 1) / 5 - real_of_int v / 5 = 2 / 10"
    by (simp add: field_simps)
  have 3: "real_of_int (frame_start (frame st)) / 5 = 0"
    "real_of_int (frame_end (frame st)) / 5 = 10"
    unfolding fr by simp_all
  have 4: "frame_start (frame st) \<le> v \<and> v \<le> frame_end (frame st) \<longrightarrow> frame_ok v"
    unfolding fr by (auto intro!: frame_ok_small)
  show ?thesis by (intro conjI 1 2 3 4 fr)
qed

theorem callback_time_witness:
  "\<exists>st0. startup = Inr st0 \<and> play [] st0 = Inr st0 \<and> frame_ok 50 \<and>
     (\<exists>f st'. time_function st0 (real_of_int 50 / 5) = Inr f \<and>
        update_3d_warp 50 st0 = Inr st' \<and>
        active_scalars (mesh_ref st') = Some (flatten f)) \<and>
     frame_end (frame st0) = 50"
proof -
  obtain st0 where r: "startup = Inr st0" by (rule startup_state)
  have p: "play [] st0 = Inr st0" by simp
  note c = callback_time [OF r p, of 50]
  have e: "frame_end (frame st0) = 50" using c by simp
  have o: "frame_ok 50" using c by simp
  have "(\<exists>f st'. time_function st0 (real_of_int 50 / 5) = Inr f \<and>
            update_3d_warp 50 st0 = Inr st' \<and>
            active_scalars (mesh_ref st') = Some (flatten f) \<and>
            map_of (point_arrays (mesh_warped st')) ''scalars'' = Some (flatten f))"
    using c [THEN conjunct1] o by (rule mp)
  then obtain f st' where u: "time_function st0 (real_of_int 50 / 5) = Inr f"
    "update_3d_warp 50 st0 = Inr st'" "active_scalars (mesh_ref st') = Some (flatten f)"
    "map_of (point_arrays (mesh_warped st')) ''scalars'' = Some (flatten f)"
    by (elim exE conjE)
  have "\<exists>f st'. time_function st0 (real_of_int 50 / 5) = Inr f \<and>
        update_3d_warp 50 st0 = Inr st' \<and>
        active_scalars (mesh_ref st') = Some (flatten f)"
    by (intro exI [of _ f] exI [of _ st'] conjI u(1,2,3))
  then show ?thesis using r p e o by (intro exI [of _ st0] conjI)
qed

text \<open>
  C9. After every invocation of the callback the reference mesh and the warped mesh hold
  the same \<^verbatim>\<open>'scalars'\<close> point array, the flattened field of the frame: whenever the
  callback returns, from any state, and it does return in every state the notebook
  reaches, for every frame whose time a float can hold.
\<close>

theorem scalars_identical:
  "(update_3d_warp fr s = Inr s' \<longrightarrow>
      (\<exists>f. time_function s (real_of_int fr / 5) = Inr f \<and>
         map_of (point_arrays (mesh_ref s')) ''scalars'' = Some (flatten f) \<and>
         map_of (point_arrays (mesh_warped s')) ''scalars'' = Some (flatten f))) \<and>
   (startup = Inr st0 \<and> play es st0 = Inr st \<and> frame_ok fr \<longrightarrow>
      (\<exists>st' d. update_3d_warp fr st = Inr st' \<and>
         map_of (point_arrays (mesh_ref st')) ''scalars'' = Some d \<and>
         map_of (point_arrays (mesh_warped st')) ''scalars'' = Some d))"
proof (intro conjI impI)
  assume a: "update_3d_warp fr s = Inr s'"
  obtain f mr mw w where u: "time_function s (real_of_int fr / 5) = Inr f"
    "point_arrays_append (flatten f) ''scalars'' (mesh_ref s) = Inr mr"
    "point_arrays_append (flatten f) ''scalars'' (mesh_warped s) = Inr mw"
    "warp_by_scalar 0.5 mr = Inr w"
    "s' = s\<lparr>mesh_ref := mr, mesh_warped := mw\<lparr>points := points w\<rparr>,
               vtkpan := mw\<lparr>points := points w\<rparr>,
               calls := calls s @
                 [Append MeshRef ''scalars'' (flatten f),
                  Append MeshWarped ''scalars'' (flatten f),
                  WarpByScalar MeshRef 0.5, SetPoints MeshWarped (points w), Synchronize]\<rparr>"
    by (rule update_3d_warp_Inr [OF a])
  have "map_of (point_arrays (mesh_ref s')) ''scalars'' = Some (flatten f)"
    unfolding u(5) point_arrays_append_Inr(1) [OF u(2)] by (simp add: update_conv')
  moreover have "map_of (point_arrays (mesh_warped s')) ''scalars'' = Some (flatten f)"
    unfolding u(5) point_arrays_append_Inr(1) [OF u(3)] by (simp add: update_conv')
  ultimately show "\<exists>f. time_function s (real_of_int fr / 5) = Inr f \<and>
         map_of (point_arrays (mesh_ref s')) ''scalars'' = Some (flatten f) \<and>
         map_of (point_arrays (mesh_warped s')) ''scalars'' = Some (flatten f)"
    using u(1) by blast
next
  assume "startup = Inr st0 \<and> play es st0 = Inr st \<and> frame_ok fr"
  then have s: "startup = Inr st0" "play es st0 = Inr st" and fo: "frame_ok fr" by simp_all
  note r = reachable(1,2) [OF s]
  obtain f st' where "update_3d_warp fr st = Inr st'"
    "map_of (point_arrays (mesh_ref st')) ''scalars'' = Some (flatten f)"
    "map_of (point_arrays (mesh_warped st')) ''scalars'' = Some (flatten f)"
    by (rule update_3d_warp_view [OF r fo, of thesis]) blast
  then show "\<exists>st' d. update_3d_warp fr st = Inr st' \<and>
         map_of (point_arrays (mesh_ref st')) ''scalars'' = Some d \<and>
         map_of (point_arrays (mesh_warped st')) ''scalars'' = Some d"
    by blast
qed

theorem scalars_identical_witness:
  "\<exists>st0 st' d. startup = Inr st0 \<and> play [] st0 = Inr st0 \<and> frame_ok 3 \<and>
     update_3d_warp 3 st0 = Inr st' \<and>
     map_of (point_arrays (mesh_ref st')) ''scalars'' = Some d \<and>
     map_of (point_arrays (mesh_warped st')) ''scalars'' = Some d \<and>
     (\<exists>f. time_function st0 (real_of_int 3 / 5) = Inr f \<and> d = flatten f)"
proof -
  obtain st0 where r: "startup = Inr st0" by (rule startup_state)
  have p: "play [] st0 = Inr st0" by simp
  have o: "frame_ok 3" by (intro frame_ok_small) simp
  have "\<exists>st' d. update_3d_warp 3 st0 = Inr st' \<and>
         map_of (point_arrays (mesh_ref st')) ''scalars'' = Some d \<and>
         map_of (point_arrays (mesh_warped st')) ''scalars'' = Some d"
    by (rule scalars_identical [of 3 st0 st0 st0 "[]" st0, THEN conjunct2, THEN mp,
          OF conjI [OF r conjI [OF p o]]])
  then obtain st' d where u: "update_3d_warp 3 st0 = Inr st'"
     "map_of (point_arrays (mesh_ref st')) ''scalars'' = Some d"
     "map_of (point_arrays (mesh_warped st')) ''scalars'' = Some d"
    by (elim exE conjE)
  have "\<exists>f. time_function st0 (real_of_int 3 / 5) = Inr f \<and>
         map_of (point_arrays (mesh_ref st')) ''scalars'' = Some (flatten f) \<and>
         map_of (point_arrays (mesh_warped st')) ''scalars'' = Some (flatten f)"
    by (rule scalars_identical [of 3 st0 st' st0 "[]" st0, THEN conjunct1, THEN mp, OF u(1)])
  then obtain f where f: "time_function st0 (real_of_int 3 / 5) = Inr f"
    "map_of (point_arrays (mesh_ref st')) ''scalars'' = Some (flatten f)"
    "map_of (point_arrays (mesh_warped st')) ''scalars'' = Some (flatten f)"
    by (elim exE conjE)
  have d: "d = flatten f" using u(2) f(2) by simp
  show ?thesis
    by (intro exI [of _ st0] exI [of _ st'] exI [of _ d] exI [of _ f] conjI r p o u f(1) d)
qed

text \<open>
  C10, as stated, fails: the bound does not hold for every time, nor for every frame. At
  time \<open>1e308\<close> the product of the field at grid position \<open>(0, 100)\<close> overflows to an
  infinity, whose sine is not-a-number; and the callback, called with frame \<open>5e308\<close> in
  the state the startup leaves, returns with that not-a-number among the scalars that the
  warp reads.
\<close>

theorem field_nan_at_1e308:
  "time_function grid (10 ^ 308) = Inr (projr (time_function grid (10 ^ 308))) \<and>
   item (projr (time_function grid (10 ^ 308))) 0 100 = NaN \<and>
   \<not> between (- 1) 1 (item (projr (time_function grid (10 ^ 308))) 0 100) \<and>
   update_3d_warp (5 * 10 ^ 308) (projr startup)
     = Inr (projr (update_3d_warp (5 * 10 ^ 308) (projr startup))) \<and>
   active_scalars (mesh_ref (projr (update_3d_warp (5 * 10 ^ 308) (projr startup))))
     = Some (flatten (projr (time_function grid (10 ^ 308)))) \<and>
   flatten (projr (time_function grid (10 ^ 308))) ! 10100 = NaN"
proof -
  let ?f = "projr (time_function grid (10 ^ 308))"
  let ?st0 = "projr startup"
  note f = time_function_projr [of "10 ^ 308"]
  have a: "item ?f 0 100 = NaN" by (rule item_field_overflow [OF f])
  have b: "\<not> between (- 1) 1 (item ?f 0 100)" unfolding a by simp
  note ok = startup_ok [OF startup_projr]
  obtain g st' w where u: "time_function ?st0 (real_of_int (5 * 10 ^ 308) / 5) = Inr g"
    "length (flatten g) = length (data (xs ?st0))"
    "update_3d_warp (5 * 10 ^ 308) ?st0 = Inr st'"
    "active_scalars (mesh_ref st') = Some (flatten g)"
    by (rule update_3d_warp_view [OF ok frame_5e308(1), of thesis]) blast
  have "time_function ?st0 (real_of_int (5 * 10 ^ 308) / 5) = time_function grid (10 ^ 308)"
    unfolding frame_5e308(2)
    by (rule time_function_cong) (simp_all add: startup_grid [OF startup_projr])
  then have g: "g = ?f" using u(1) f by simp
  have st': "projr (update_3d_warp (5 * 10 ^ 308) ?st0) = st'" unfolding u(3) by simp
  have k: "(10100::nat) < 10201" by simp
  have c: "flatten ?f ! 10100 = NaN"
    using flatten_field_grid(2) [OF f k] a by simp
  show ?thesis
    unfolding st' using u(4) unfolding g by (intro conjI f a b u(3) c)
qed

text \<open>
  C10, amended. For every time \<open>t\<close> at which no product of the field overflows, that is,
  with \<open>4 * (\<bar>t\<bar> + 4)\<close> at most the largest float (\<open>\<bar>t\<bar>\<close> up to about \<open>4.49e307\<close>),
  and every grid position, the field value is finite and lies in the closed interval from
  \<open>- 1\<close> to \<open>1\<close>. Hence the data fed to the warp is bounded for every frame whose time is
  such a time, and so for every frame of the player: in every state the notebook reaches,
  the callback called with such a frame leaves as active scalars of the reference mesh,
  which the warp reads, an array whose entries all lie in that interval.
\<close>

theorem field_bounded:
  assumes "i < 101" "j < 101" "k < 10201" "time_ok t"
    "startup = Inr st0" "play es st0 = Inr st" "time_ok (real_of_int fr / 5)"
  shows "(\<exists>f. time_function grid t = Inr f \<and> between (- 1) 1 (item f i j)) \<and>
         (\<exists>d st'. update_3d_warp fr st = Inr st' \<and> active_scalars (mesh_ref st') = Some d \<and>
            length d = 10201 \<and> between (- 1) 1 (d ! k)) \<and>
         (frame_start (frame st) \<le> n \<and> n \<le> frame_end (frame st) \<longrightarrow>
            time_ok (real_of_int n / 5))"
proof -
  obtain f where f: "time_function grid t = Inr f" "shape f = (101, 101)"
    by (rule time_function_grid_shape)
  have 1: "between (- 1) 1 (item f i j)"
    unfolding item_field_real [OF assms(1,2) f(1) assms(4)] by simp
  note r = reachable [OF assms(5,6)]
  note fo = time_ok_frame_ok [OF assms(7)]
  obtain f' st' w where u: "time_function st (real_of_int fr / 5) = Inr f'"
    "length (flatten f') = length (data (xs st))"
    "update_3d_warp fr st = Inr st'"
    "active_scalars (mesh_ref st') = Some (flatten f')"
    by (rule update_3d_warp_view [OF r(1,2) fo, of thesis]) blast
  have "time_function st (real_of_int fr / 5) = time_function grid (real_of_int fr / 5)"
    by (rule time_function_cong) (simp_all add: r)
  then have g: "time_function grid (real_of_int fr / 5) = Inr f'" using u(1) by simp
  have len: "length (flatten f') = 10201" by (rule flatten_field_grid(1) [OF g assms(3)])
  have 2: "between (- 1) 1 (flatten f' ! k)"
    unfolding flatten_field_real [OF g assms(3,7)] by simp
  have 3: "frame_start (frame st) \<le> n \<and> n \<le> frame_end (frame st) \<longrightarrow>
            time_ok (real_of_int n / 5)"
    unfolding r(8,9) using time_ok_player [of n] by blast
  have a: "\<exists>f. time_function grid t = Inr f \<and> between (- 1) 1 (item f i j)"
    by (intro exI [of _ f] conjI f(1) 1)
  have b: "\<exists>d st'. update_3d_warp fr st = Inr st' \<and> active_scalars (mesh_ref st') = Some d \<and>
            length d = 10201 \<and> between (- 1) 1 (d ! k)"
    by (intro exI [of _ "flatten f'"] exI [of _ st'] conjI u(3,4) len 2)
  show ?thesis by (intro conjI a b 3)
qed

theorem field_bounded_witness:
  "\<exists>st0. (0::nat) < 101 \<and> (0::nat) < 10201 \<and> time_ok 0 \<and> startup = Inr st0 \<and>
     play [] st0 = Inr st0 \<and> time_ok (real_of_int 7 / 5) \<and>
     (\<exists>f. time_function grid 0 = Inr f \<and> between (- 1) 1 (item f 0 0)) \<and>
     (\<exists>d st'. update_3d_warp 7 st0 = Inr st' \<and> active_scalars (mesh_ref st') = Some d \<and>
        length d = 10201 \<and> between (- 1) 1 (d ! 0)) \<and>
     frame_start (frame st0) \<le> 50 \<and> 50 \<le> frame_end (frame st0) \<and>
     time_ok (real_of_int 50 / 5)"
proof -
  obtain st0 where r: "startup = Inr st0" by (rule startup_state)
  have p: "play [] st0 = Inr st0" by simp
  have h: "(0::nat) < 101" "(0::nat) < 10201" by simp_all
  have t: "time_ok 0" "time_ok (real_of_int 7 / 5)" by (intro time_ok_small, simp)+
  note c = field_bounded [OF h(1) h(1) h(2) t(1) r p t(2), of 50]
  have e: "frame_start (frame st0) \<le> 50" "50 \<le> frame_end (frame st0)"
    by (simp_all add: startup_grid(6) [OF r])
  have "time_ok (real_of_int 50 / 5)" using c e by blast
  then show ?thesis using c r p h t e by blast
qed

end
